theory Spec2Isabelle
  imports Main "HOL-Library.Word" "HOL-Library.Signed_Division"
begin

unbundle bit_operations_syntax

section \<open>Machine integers\<close>

text \<open>
  The program is C++ for a 32-bit ARM Linux target: \<open>int\<close> and \<open>uint32_t\<close> are 32-bit
  words, \<open>int64_t\<close> and \<open>uint64_t\<close> are 64-bit words.  Arithmetic wraps around; a
  signed value is read with \<open>sint\<close>, compared with \<open><s\<close> and \<open>\<le>s\<close>, widened with
  \<open>scast\<close> and narrowed with \<open>ucast\<close>.
\<close>

type_synonym s32 = "32 word"
type_synonym u32 = "32 word"
type_synonym s64 = "64 word"
type_synonym u64 = "64 word"

text \<open>The C operator \<open>/\<close> on signed operands: the quotient is truncated towards zero.
  Callers test the divisor for zero first, where the machine traps.\<close>

definition c_sdiv :: "'a::len word \<Rightarrow> 'a word \<Rightarrow> 'a word" where
  "c_sdiv a b = word_of_int (sint a sdiv sint b)"

section \<open>The frame-advance function of dashcam.cpp\<close>

subsection \<open>Environment\<close>

text \<open>
  What \<open>wait_for_next_frame\<close> does to its surroundings is recorded in a trace: every
  sleep, every blocking read and every message, in program order.
\<close>

datatype event =
    Sleep u32
  | GetChar
  | SigMaskBlock
  | SigWait
  | Stderr string
  | StderrBadSignal s32
  | LogLate s32 s32
  | LogSkip s32 s32

text \<open>
  The world holds the microsecond clock read by \<open>vcos_getmicrosecs64\<close>, the time by
  which every \<open>vcos_sleep\<close> overruns its request (the call sleeps at least the time
  asked for), the characters waiting on standard input, the value the next \<open>sigwait\<close>
  returns, the value of \<open>errno\<close>, and the trace.
\<close>

record world =
  clock_us :: u64
  overrun_us :: u64
  keys :: "s32 list"
  sigwait_result :: s32
  errno :: s32
  trace :: "event list"

definition emit :: "event \<Rightarrow> world \<Rightarrow> world" where
  "emit e w = w\<lparr>trace := trace w @ [e]\<rparr>"

definition vcos_getmicrosecs64 :: "world \<Rightarrow> u64" where
  "vcos_getmicrosecs64 w = clock_us w"

definition vcos_sleep :: "u32 \<Rightarrow> world \<Rightarrow> world" where
  "vcos_sleep ms w =
     emit (Sleep ms) (w\<lparr>clock_us := clock_us w + 1000 * ucast ms + overrun_us w\<rparr>)"

text \<open>\<open>getchar\<close>: the next character of standard input, or \<open>EOF\<close> (-1) when there is none.\<close>

definition getchar :: "world \<Rightarrow> s32 \<times> world" where
  "getchar w =
     (case keys w of
        [] \<Rightarrow> (- 1, emit GetChar w)
      | k # ks \<Rightarrow> (k, emit GetChar (w\<lparr>keys := ks\<rparr>)))"

subsection \<open>State\<close>

definition FRAME_NEXT_SINGLE :: s32 where "FRAME_NEXT_SINGLE = 0"
definition FRAME_NEXT_TIMELAPSE :: s32 where "FRAME_NEXT_TIMELAPSE = 1"
definition FRAME_NEXT_KEYPRESS :: s32 where "FRAME_NEXT_KEYPRESS = 2"
definition FRAME_NEXT_FOREVER :: s32 where "FRAME_NEXT_FOREVER = 3"
definition FRAME_NEXT_GPIO :: s32 where "FRAME_NEXT_GPIO = 4"
definition FRAME_NEXT_SIGNAL :: s32 where "FRAME_NEXT_SIGNAL = 5"
definition FRAME_NEXT_IMMEDIATELY :: s32 where "FRAME_NEXT_IMMEDIATELY = 6"

text \<open>The fields of \<open>RASPISTILL_STATE\<close> that the function reads.\<close>

record RASPISTILL_STATE =
  timeout :: s32
  timelapse :: s32
  frameNextMethod :: s32
  verbose :: s32

text \<open>The two function-local \<open>static\<close> variables; both start at -1.\<close>

record wfnf_statics =
  complete_time :: s64
  next_frame_ms :: s64

definition statics_init :: wfnf_statics where
  "statics_init = \<lparr>complete_time = - 1, next_frame_ms = - 1\<rparr>"

text \<open>The integer division \<open>(-this_delay_ms) / state->timelapse\<close> traps when the
  interval is zero; the callback below dereferences a null pointer on one path.\<close>

datatype fault = DivideByZero | NullDereference

text \<open>What a call leaves behind: the returned \<open>int\<close> (0 is stop, anything else
  continue), the frame counter \<open>*frame\<close>, the statics and the world.\<close>

record wfnf_result =
  ret :: s32
  frame_out :: s32
  statics_out :: wfnf_statics
  world_out :: world

subsection \<open>The cases of the switch\<close>

definition case_FRAME_NEXT_TIMELAPSE ::
  "RASPISTILL_STATE \<Rightarrow> wfnf_statics \<Rightarrow> s32 \<Rightarrow> world \<Rightarrow> s64 \<Rightarrow> s32 \<Rightarrow> fault + wfnf_result"
where
  "case_FRAME_NEXT_TIMELAPSE state st frame w current_time keep_running =
     (let frame1 = frame + 1 in
      if next_frame_ms st = - 1 then
        (let w1 = vcos_sleep (timelapse state) w;
             current_time1 = vcos_getmicrosecs64 w1 div 1000
         in Inr \<lparr>ret = keep_running, frame_out = frame1,
                 statics_out = st\<lparr>next_frame_ms := current_time1 + scast (timelapse state)\<rparr>,
                 world_out = w1\<rparr>)
      else
        (let this_delay_ms = next_frame_ms st - current_time in
         if this_delay_ms <s 0 then
           (if - this_delay_ms <s scast (c_sdiv (timelapse state) 2) then
              Inr \<lparr>ret = keep_running, frame_out = frame1,
                   statics_out = st\<lparr>next_frame_ms := next_frame_ms st + scast (timelapse state)\<rparr>,
                   world_out = emit (LogLate frame1 (ucast (- this_delay_ms))) w\<rparr>
            else if timelapse state = 0 then Inl DivideByZero
            else
              (let nskip = (ucast (1 + c_sdiv (- this_delay_ms) (scast (timelapse state))) :: s32);
                   w1 = emit (LogSkip frame1 (frame1 + nskip)) w;
                   frame2 = frame1 + nskip;
                   this_delay_ms1 = this_delay_ms + scast (nskip * timelapse state);
                   w2 = vcos_sleep (ucast this_delay_ms1) w1
               in Inr \<lparr>ret = keep_running, frame_out = frame2,
                       statics_out = st\<lparr>next_frame_ms :=
                          next_frame_ms st + scast ((nskip + 1) * timelapse state)\<rparr>,
                       world_out = w2\<rparr>))
         else
           Inr \<lparr>ret = keep_running, frame_out = frame1,
                statics_out = st\<lparr>next_frame_ms := next_frame_ms st + scast (timelapse state)\<rparr>,
                world_out = vcos_sleep (ucast this_delay_ms) w\<rparr>))"

definition case_FRAME_NEXT_KEYPRESS ::
  "RASPISTILL_STATE \<Rightarrow> wfnf_statics \<Rightarrow> s32 \<Rightarrow> world \<Rightarrow> s32 \<Rightarrow> fault + wfnf_result"
where
  "case_FRAME_NEXT_KEYPRESS state st frame w keep_running =
     (let w1 = (if verbose state \<noteq> 0
                then emit (Stderr ''Press Enter to capture, X then ENTER to exit'') w else w);
          (ch, w2) = getchar w1;
          frame1 = frame + 1
      in if ch = 120 \<or> ch = 88
         then Inr \<lparr>ret = 0, frame_out = frame1, statics_out = st, world_out = w2\<rparr>
         else Inr \<lparr>ret = keep_running, frame_out = frame1, statics_out = st, world_out = w2\<rparr>)"

definition case_FRAME_NEXT_IMMEDIATELY ::
  "wfnf_statics \<Rightarrow> s32 \<Rightarrow> world \<Rightarrow> s32 \<Rightarrow> fault + wfnf_result"
where
  "case_FRAME_NEXT_IMMEDIATELY st frame w keep_running =
     (let w1 = (if frame = 0 then vcos_sleep 1000 w else vcos_sleep 30 w)
      in Inr \<lparr>ret = keep_running, frame_out = frame + 1, statics_out = st, world_out = w1\<rparr>)"

definition case_FRAME_NEXT_SIGNAL ::
  "RASPISTILL_STATE \<Rightarrow> wfnf_statics \<Rightarrow> s32 \<Rightarrow> world \<Rightarrow> s32 \<Rightarrow> fault + wfnf_result"
where
  "case_FRAME_NEXT_SIGNAL state st frame w keep_running =
     (let w1 = emit SigMaskBlock w;
          w2 = (if verbose state \<noteq> 0
                then emit (Stderr ''Waiting for SIGUSR1 to initiate capture'') w1 else w1);
          result = sigwait_result w2;
          w3 = emit SigWait w2;
          w4 = (if verbose state \<noteq> 0
                then (if result = 0 then emit (Stderr ''Received SIGUSR1'') w3
                      else emit (StderrBadSignal (errno w3)) w3)
                else w3)
      in Inr \<lparr>ret = keep_running, frame_out = frame + 1, statics_out = st, world_out = w4\<rparr>)"

subsection \<open>wait_for_next_frame\<close>

text \<open>
  The function reads the clock, initialises the overall deadline on its first call,
  computes \<open>keep_running\<close> and dispatches on \<open>frameNextMethod\<close>, in the order of the
  source's \<open>case\<close> labels; a value that matches no label leaves the switch and returns
  \<open>keep_running\<close>.
\<close>

definition wait_for_next_frame ::
  "RASPISTILL_STATE \<Rightarrow> wfnf_statics \<Rightarrow> s32 \<Rightarrow> world \<Rightarrow> fault + wfnf_result"
where
  "wait_for_next_frame state st0 frame w =
     (let current_time = vcos_getmicrosecs64 w div 1000;
          st = (if complete_time st0 = - 1
                then st0\<lparr>complete_time := current_time + scast (timeout state)\<rparr> else st0);
          keep_running = (if complete_time st \<le>s current_time \<and> timeout state \<noteq> 0
                          then 0 else 1)
      in if frameNextMethod state = FRAME_NEXT_SINGLE then
           Inr \<lparr>ret = 0, frame_out = frame, statics_out = st, world_out = vcos_sleep 5000 w\<rparr>
         else if frameNextMethod state = FRAME_NEXT_FOREVER then
           Inr \<lparr>ret = 1, frame_out = frame + 1, statics_out = st,
                world_out = vcos_sleep 10000 w\<rparr>
         else if frameNextMethod state = FRAME_NEXT_TIMELAPSE then
           case_FRAME_NEXT_TIMELAPSE state st frame w current_time keep_running
         else if frameNextMethod state = FRAME_NEXT_KEYPRESS then
           case_FRAME_NEXT_KEYPRESS state st frame w keep_running
         else if frameNextMethod state = FRAME_NEXT_IMMEDIATELY then
           case_FRAME_NEXT_IMMEDIATELY st frame w keep_running
         else if frameNextMethod state = FRAME_NEXT_GPIO then
           Inr \<lparr>ret = 0, frame_out = frame, statics_out = st, world_out = w\<rparr>
         else if frameNextMethod state = FRAME_NEXT_SIGNAL then
           case_FRAME_NEXT_SIGNAL state st frame w keep_running
         else
           Inr \<lparr>ret = keep_running, frame_out = frame, statics_out = st, world_out = w\<rparr>)"

text \<open>The overall deadline as the call sees it: the stored \<open>complete_time\<close>, or the one
  the first call sets; and the test the source makes against it.\<close>

definition overall_deadline :: "RASPISTILL_STATE \<Rightarrow> wfnf_statics \<Rightarrow> world \<Rightarrow> s64" where
  "overall_deadline state st0 w =
     (if complete_time st0 = - 1
      then vcos_getmicrosecs64 w div 1000 + scast (timeout state)
      else complete_time st0)"

definition deadline_reached :: "RASPISTILL_STATE \<Rightarrow> wfnf_statics \<Rightarrow> world \<Rightarrow> bool" where
  "deadline_reached state st0 w \<longleftrightarrow>
     timeout state \<noteq> 0 \<and> overall_deadline state st0 w \<le>s vcos_getmicrosecs64 w div 1000"

text \<open>
  The branch a TIMELAPSE tick takes.  The tick skips frames when it is not the first and
  is late by half an interval or more; the number of frames it then skips is the
  source's \<open>nskip\<close>, a quotient by the interval.  With a zero interval that quotient is a
  division by zero: the call traps.
\<close>

definition timelapse_skips :: "RASPISTILL_STATE \<Rightarrow> wfnf_statics \<Rightarrow> world \<Rightarrow> bool" where
  "timelapse_skips state st0 w \<longleftrightarrow>
     (let this_delay_ms = next_frame_ms st0 - vcos_getmicrosecs64 w div 1000
      in next_frame_ms st0 \<noteq> - 1 \<and> this_delay_ms <s 0
         \<and> \<not> - this_delay_ms <s scast (c_sdiv (timelapse state) 2))"

definition timelapse_nskip :: "RASPISTILL_STATE \<Rightarrow> wfnf_statics \<Rightarrow> world \<Rightarrow> s32" where
  "timelapse_nskip state st0 w =
     (let this_delay_ms = next_frame_ms st0 - vcos_getmicrosecs64 w div 1000
      in ucast (1 + c_sdiv (- this_delay_ms) (scast (timelapse state))))"

definition timelapse_traps :: "RASPISTILL_STATE \<Rightarrow> wfnf_statics \<Rightarrow> world \<Rightarrow> bool" where
  "timelapse_traps state st0 w \<longleftrightarrow>
     frameNextMethod state = FRAME_NEXT_TIMELAPSE \<and> timelapse state = 0
     \<and> timelapse_skips state st0 w"

text \<open>
  The clock is in step with the stored deadline: it stands at the deadline before it, the
  one the tick has just waited for, or past that by less than a millisecond plus one
  overrun of a sleep.
\<close>

definition in_step :: "wfnf_statics \<Rightarrow> world \<Rightarrow> bool" where
  "in_step st w \<longleftrightarrow>
     1000 \<le> unat (next_frame_ms st)
     \<and> 1000 * (unat (next_frame_ms st) - 1000) \<le> unat (clock_us w)
     \<and> unat (clock_us w) \<le> 1000 * (unat (next_frame_ms st) - 1000) + 999 + unat (overrun_us w)"

text \<open>
  Back-to-back ticks with no processing in between: each call starts at the clock value,
  with the statics and the frame counter, that the previous call left.
\<close>

fun ticks :: "nat \<Rightarrow> RASPISTILL_STATE \<Rightarrow> wfnf_statics \<times> s32 \<times> world \<Rightarrow>
    fault + (wfnf_statics \<times> s32 \<times> world)" where
  "ticks 0 state c = Inr c"
| "ticks (Suc n) state (st, frame, w) =
     (case wait_for_next_frame state st frame w of
        Inl e \<Rightarrow> Inl e
      | Inr res \<Rightarrow> ticks n state (statics_out res, frame_out res, world_out res))"

section \<open>The encoder delivery callback of dashcam.cpp\<close>

subsection \<open>Buffers, port and shared state\<close>

text \<open>The two buffer flags the callback tests, with their values in the MMAL header
  \<open>mmal_buffer.h\<close>.\<close>

definition MMAL_BUFFER_HEADER_FLAG_FRAME_END :: u32 where
  "MMAL_BUFFER_HEADER_FLAG_FRAME_END = push_bit 2 1"

definition MMAL_BUFFER_HEADER_FLAG_TRANSMISSION_FAILED :: u32 where
  "MMAL_BUFFER_HEADER_FLAG_TRANSMISSION_FAILED = push_bit 10 1"

definition MMAL_SUCCESS :: nat where
  "MMAL_SUCCESS = 0"

text \<open>A buffer header: which header of the pool it is, the payload length and the flags.\<close>

record MMAL_BUFFER_HEADER_T =
  buf_id :: nat
  buf_length :: u32
  buf_flags :: u32

text \<open>The port as the callback sees it: \<open>userdata\<close> is false when the pointer is null
  and true when it points at the \<open>PORT_USERDATA\<close> that \<open>main\<close> installs.\<close>

record MMAL_PORT_T =
  userdata :: bool
  is_enabled :: bool

text \<open>What the operating system and the MMAL library answer during one invocation:
  the descriptor \<open>open\<close> returns, the count \<open>write\<close> returns, and the status of
  \<open>mmal_port_send_buffer\<close>.\<close>

record cb_env =
  open_result :: s32
  write_result :: s32
  send_status :: nat

datatype cb_event =
    Open
  | Fchmod s32
  | MemLock nat
  | WriteCall s32 u32
  | Printf string
  | MemUnlock nat
  | LogError string
  | Release nat
  | SendBuffer nat
  | SemaphorePost
  | Close s32

text \<open>
  The state shared between the callback and \<open>main\<close>: the global \<open>outputFileFD\<close>, the
  count of the completion semaphore, the free queue of the encoder pool (header
  identities, oldest first), the calls made so far, and the fault that stopped the
  program, if any.
\<close>

record cb_state =
  outputFileFD :: s32
  complete_semaphore :: nat
  pool_queue :: "nat list"
  cb_trace :: "cb_event list"
  cb_fault :: "fault option"

definition cb_emit :: "cb_event \<Rightarrow> cb_state \<Rightarrow> cb_state" where
  "cb_emit e s = s\<lparr>cb_trace := cb_trace s @ [e]\<rparr>"

text \<open>\<open>mmal_buffer_header_release\<close> hands the header back to the pool: it joins the tail
  of the free queue.  \<open>mmal_queue_get\<close> takes the head of the queue, or yields null.\<close>

definition mmal_buffer_header_release :: "MMAL_BUFFER_HEADER_T \<Rightarrow> cb_state \<Rightarrow> cb_state" where
  "mmal_buffer_header_release buffer s =
     cb_emit (Release (buf_id buffer)) (s\<lparr>pool_queue := pool_queue s @ [buf_id buffer]\<rparr>)"

definition mmal_queue_get :: "cb_state \<Rightarrow> nat option \<times> cb_state" where
  "mmal_queue_get s =
     (case pool_queue s of
        [] \<Rightarrow> (None, s)
      | b # bs \<Rightarrow> (Some b, s\<lparr>pool_queue := bs\<rparr>))"

definition vcos_semaphore_post :: "cb_state \<Rightarrow> cb_state" where
  "vcos_semaphore_post s =
     cb_emit SemaphorePost (s\<lparr>complete_semaphore := complete_semaphore s + 1\<rparr>)"

subsection \<open>encoder_buffer_callback\<close>

text \<open>The first half: with user state, open the sink if \<open>main\<close> asked for it, write the
  payload, and decide \<open>complete\<close>; without user state, log the error.\<close>

definition callback_write ::
  "MMAL_PORT_T \<Rightarrow> MMAL_BUFFER_HEADER_T \<Rightarrow> cb_env \<Rightarrow> cb_state \<Rightarrow> s32 \<times> cb_state"
where
  "callback_write port buffer env s0 =
     (if userdata port then
        (let s1 = (if outputFileFD s0 = - 1
                   then cb_emit (Fchmod (open_result env))
                          (cb_emit Open (s0\<lparr>outputFileFD := open_result env\<rparr>))
                   else s0);
             (complete1, s2) =
               (if buf_length buffer \<noteq> 0 \<and> 0 <s outputFileFD s1 then
                  (let s1a = cb_emit (MemLock (buf_id buffer)) s1;
                       s1b = cb_emit (WriteCall (outputFileFD s1a) (buf_length buffer)) s1a;
                       lenWritten = write_result env;
                       (c, s1c) = (if lenWritten \<noteq> buf_length buffer
                                   then (1, cb_emit (Printf ''Write error, aborting'') s1b)
                                   else (0, s1b))
                   in (c, cb_emit (MemUnlock (buf_id buffer)) s1c))
                else (0, s1));
             complete2 =
               (if buf_flags buffer AND (MMAL_BUFFER_HEADER_FLAG_FRAME_END OR
                                          MMAL_BUFFER_HEADER_FLAG_TRANSMISSION_FAILED) \<noteq> 0
                then 1 else complete1)
         in (complete2, s2))
      else (0, cb_emit (LogError ''Received a encoder buffer callback with no state'') s0))"

text \<open>The end of the callback: on completion post the semaphore, close the sink and
  reset the descriptor.\<close>

definition callback_finish :: "s32 \<Rightarrow> cb_state \<Rightarrow> cb_state" where
  "callback_finish complete s =
     (if complete \<noteq> 0 then
        (let s1 = vcos_semaphore_post s;
             s2 = cb_emit (Close (outputFileFD s1)) s1
         in s2\<lparr>outputFileFD := 0\<rparr>)
      else s)"

text \<open>
  The middle of the callback, after the buffer has been released: if the port is still
  enabled, a header is taken from the pool queue, reached through \<open>pData->pstate\<close>, and
  sent to the port.  With a null \<open>pData\<close> that access faults.
\<close>

definition callback_resubmit :: "MMAL_PORT_T \<Rightarrow> cb_env \<Rightarrow> cb_state \<Rightarrow> fault + cb_state" where
  "callback_resubmit port env s2 =
     (if is_enabled port then
        (if \<not> userdata port then Inl NullDereference
         else
           (let (new_buffer, s3) = mmal_queue_get s2;
                (status, s4) =
                  (case new_buffer of
                     Some b \<Rightarrow> (send_status env, cb_emit (SendBuffer b) s3)
                   | None \<Rightarrow> (MMAL_SUCCESS, s3));
                s5 = (if new_buffer = None \<or> status \<noteq> MMAL_SUCCESS
                      then cb_emit (LogError ''Unable to return a buffer to the encoder port'') s4
                      else s4)
            in Inr s5))
      else Inr s2)"

text \<open>The whole callback, in the order of the source: write, release, resubmit, finish.
  A fault stops it where it happens, and the state at the fault is what it leaves.\<close>

definition encoder_buffer_callback ::
  "MMAL_PORT_T \<Rightarrow> MMAL_BUFFER_HEADER_T \<Rightarrow> cb_env \<Rightarrow> cb_state \<Rightarrow> cb_state"
where
  "encoder_buffer_callback port buffer env s0 =
     (let (complete, s1) = callback_write port buffer env s0;
          s2 = mmal_buffer_header_release buffer s1
      in case callback_resubmit port env s2 of
           Inl f \<Rightarrow> s2\<lparr>cb_fault := Some f\<rparr>
         | Inr s5 \<Rightarrow> callback_finish complete s5)"

subsection \<open>A capture session\<close>

text \<open>
  One delivery is one invocation of the callback: the port as it is at that moment, the
  buffer delivered, and the answers of the environment.  A session is the sequence of
  deliveries between \<open>mmal_port_enable\<close> and \<open>mmal_port_disable\<close> in \<open>main\<close>; a fault
  ends it.
\<close>

record delivery =
  d_port :: MMAL_PORT_T
  d_buffer :: MMAL_BUFFER_HEADER_T
  d_env :: cb_env

fun deliver_all :: "delivery list \<Rightarrow> cb_state \<Rightarrow> cb_state" where
  "deliver_all [] s = s"
| "deliver_all (d # ds) s =
     (let s' = encoder_buffer_callback (d_port d) (d_buffer d) (d_env d) s
      in if cb_fault s' \<noteq> None then s' else deliver_all ds s')"

text \<open>The state in which \<open>main\<close> starts a session: it has just set \<open>outputFileFD\<close> to -1;
  the semaphore is at 0 and the pool queue holds the given headers.\<close>

definition session_start :: "nat list \<Rightarrow> cb_state" where
  "session_start q =
     \<lparr>outputFileFD = - 1, complete_semaphore = 0, pool_queue = q, cb_trace = [],
      cb_fault = None\<rparr>"

text \<open>A buffer carries a completion marker; the payload write of a delivery comes back
  short (the sink being open, after the lazy open, and the payload non-empty).\<close>

definition has_marker :: "MMAL_BUFFER_HEADER_T \<Rightarrow> bool" where
  "has_marker buffer \<longleftrightarrow>
     buf_flags buffer AND (MMAL_BUFFER_HEADER_FLAG_FRAME_END OR
                           MMAL_BUFFER_HEADER_FLAG_TRANSMISSION_FAILED) \<noteq> 0"

definition sink_fd :: "cb_env \<Rightarrow> cb_state \<Rightarrow> s32" where
  "sink_fd env s = (if outputFileFD s = - 1 then open_result env else outputFileFD s)"

definition short_write :: "MMAL_BUFFER_HEADER_T \<Rightarrow> cb_env \<Rightarrow> cb_state \<Rightarrow> bool" where
  "short_write buffer env s \<longleftrightarrow>
     buf_length buffer \<noteq> 0 \<and> 0 <s sink_fd env s \<and> write_result env \<noteq> buf_length buffer"

text \<open>A delivery that should not complete a session: user state is present, the buffer
  carries no marker, and the payload, if there is one, is written in full.\<close>

definition plain_delivery :: "delivery \<Rightarrow> bool" where
  "plain_delivery d \<longleftrightarrow>
     userdata (d_port d) \<and> \<not> has_marker (d_buffer d) \<and>
     (buf_length (d_buffer d) = 0 \<or> write_result (d_env d) = buf_length (d_buffer d))"

definition mk_delivery :: "bool \<Rightarrow> nat \<Rightarrow> u32 \<Rightarrow> u32 \<Rightarrow> s32 \<Rightarrow> delivery" where
  "mk_delivery enabled i len flags written =
     \<lparr>d_port = \<lparr>userdata = True, is_enabled = enabled\<rparr>,
      d_buffer = \<lparr>buf_id = i, buf_length = len, buf_flags = flags\<rparr>,
      d_env = \<lparr>open_result = 5, write_result = written, send_status = MMAL_SUCCESS\<rparr>\<rparr>"

section \<open>The upload receiver of dashgrab.cpp\<close>

text \<open>An \<open>unsigned long\<close> written to an \<open>ostringstream\<close> appears in decimal.\<close>

definition digit_char :: "nat \<Rightarrow> char" where
  "digit_char d = ''0123456789'' ! d"

fun decimal :: "nat \<Rightarrow> string" where
  "decimal n = (if n < 10 then [digit_char n] else decimal (n div 10) @ [digit_char (n mod 10)])"

declare decimal.simps [simp del]

text \<open>What one \<open>read\<close> on the connection yields: some bytes, 0 when the peer has closed,
  or -1 on an error.\<close>

datatype read_reply = Data "8 word list" | PeerClosed | ReadFailed

datatype grab_event =
    PrintWaiting
  | PrintOpened
  | PrintClient u32
  | OpenFile string
  | FchmodOut
  | ReadCall s32
  | WriteOut "8 word list"
  | Perror string
  | Exit s32

text \<open>The \<open>do \<dots> while (len > 0)\<close> loop: every chunk read is written out as it came;
  the first reply without data ends the loop.  A connection with no further reply is
  one the peer has closed.\<close>

fun copy_loop :: "s32 \<Rightarrow> read_reply list \<Rightarrow> grab_event list" where
  "copy_loop fd [] = [ReadCall fd]"
| "copy_loop fd (Data bs # rs) =
     (if bs = [] then [ReadCall fd] else ReadCall fd # WriteOut bs # copy_loop fd rs)"
| "copy_loop fd (PeerClosed # rs) = [ReadCall fd]"
| "copy_loop fd (ReadFailed # rs) = [ReadCall fd]"

definition processClient :: "s32 \<Rightarrow> u32 \<Rightarrow> read_reply list \<Rightarrow> grab_event list" where
  "processClient fd address replies =
     (let filename = ''/var/www/html/grab'' @ decimal (unat address) @ ''.jpeg''
      in [PrintClient address, OpenFile filename, FchmodOut] @ copy_loop fd replies)"

record sockaddr_in =
  sin_family :: "16 word"
  sin_port :: "16 word"
  sin_addr :: u32

definition INADDR_ANY :: u32 where
  "INADDR_ANY = 0"

definition AF_INET :: "16 word" where
  "AF_INET = 2"

definition portno :: "16 word" where
  "portno = 3333"

definition htons :: "16 word \<Rightarrow> 16 word" where
  "htons x = push_bit 8 x OR drop_bit 8 x"

text \<open>The address \<open>acceptThread\<close> binds to.\<close>

definition serv_addr :: sockaddr_in where
  "serv_addr = \<lparr>sin_family = AF_INET, sin_port = htons portno, sin_addr = INADDR_ANY\<rparr>"

text \<open>An accepted connection: the peer address \<open>accept\<close> stores in \<open>cli_addr\<close>, the new
  descriptor, and what the peer sends.\<close>

record connection =
  cli_addr :: sockaddr_in
  newsockfd :: s32
  replies :: "read_reply list"

text \<open>The body of the accept loop for one accepted connection: \<open>processClient\<close> is
  started with the new descriptor and \<open>serv_addr.sin_addr.s_addr\<close>.  The future that
  \<open>std::async\<close> returns is discarded at once, which waits for the client to be done, so
  connections are handled one after the other.\<close>

definition accept_one :: "connection \<Rightarrow> grab_event list" where
  "accept_one c = processClient (newsockfd c) (sin_addr serv_addr) (replies c)"

text \<open>One pass of the \<open>while (run)\<close> loop: \<open>select\<close> times out after two seconds, or a
  connection is accepted, or \<open>accept\<close> fails, which ends the program through \<open>error\<close>.
  The list of passes ends when \<open>run\<close> is cleared.\<close>

datatype loop_pass = SelectTimeout | Accepted connection | AcceptFailed

fun accept_loop :: "loop_pass list \<Rightarrow> grab_event list" where
  "accept_loop [] = []"
| "accept_loop (SelectTimeout # ps) = PrintWaiting # accept_loop ps"
| "accept_loop (Accepted c # ps) = PrintWaiting # PrintOpened # accept_one c @ accept_loop ps"
| "accept_loop (AcceptFailed # ps) = [PrintWaiting, Perror ''ERROR on accept'', Exit 1]"

text \<open>\<open>acceptThread\<close>: create and bind the socket, either of which may fail and end the
  program, then loop.\<close>

definition acceptThread :: "bool \<Rightarrow> bool \<Rightarrow> loop_pass list \<Rightarrow> grab_event list" where
  "acceptThread socket_ok bind_ok passes =
     (if \<not> socket_ok then [Perror ''ERROR opening socket'', Exit 1]
      else if \<not> bind_ok then [Perror ''ERROR on binding'', Exit 1]
      else accept_loop passes)"

text \<open>The names of the files a run opens, in order.\<close>

fun opened_files :: "grab_event list \<Rightarrow> string list" where
  "opened_files [] = []"
| "opened_files (OpenFile f # es) = f # opened_files es"
| "opened_files (e # es) = opened_files es"

definition peer_at :: "u32 \<Rightarrow> s32 \<Rightarrow> read_reply list \<Rightarrow> connection" where
  "peer_at a fd rs =
     \<lparr>cli_addr = \<lparr>sin_family = AF_INET, sin_port = 0, sin_addr = a\<rparr>, newsockfd = fd,
      replies = rs\<rparr>"

text \<open>Sample inputs for the closed instances below: a quiet world whose clock reads
  \<open>us\<close> microseconds, and a state with a given timeout, interval and method.\<close>

definition world_at :: "u64 \<Rightarrow> world" where
  "world_at us = \<lparr>clock_us = us, overrun_us = 0, keys = [], sigwait_result = 0, errno = 0,
      trace = []\<rparr>"

text \<open>A world whose sleeps all overrun by 5 ms.\<close>

definition world_slow :: world where
  "world_slow = \<lparr>clock_us = 0, overrun_us = 5000, keys = [], sigwait_result = 0, errno = 0,
      trace = []\<rparr>"

definition state_of :: "s32 \<Rightarrow> s32 \<Rightarrow> s32 \<Rightarrow> RASPISTILL_STATE" where
  "state_of tmo ival m = \<lparr>timeout = tmo, timelapse = ival, frameNextMethod = m, verbose = 0\<rparr>"

section \<open>Properties of wait_for_next_frame\<close>

lemmas FRAME_NEXT_defs =
  FRAME_NEXT_SINGLE_def FRAME_NEXT_TIMELAPSE_def FRAME_NEXT_KEYPRESS_def
  FRAME_NEXT_FOREVER_def FRAME_NEXT_GPIO_def FRAME_NEXT_SIGNAL_def
  FRAME_NEXT_IMMEDIATELY_def

subsection \<open>The dispatch, with the deadline test named\<close>

lemma wfnf_dispatch:
  "wait_for_next_frame state st0 frame w =
     (let current_time = vcos_getmicrosecs64 w div 1000;
          st = st0\<lparr>complete_time := overall_deadline state st0 w\<rparr>;
          keep_running = (if deadline_reached state st0 w then 0 else 1)
      in if frameNextMethod state = 0 then
           Inr \<lparr>ret = 0, frame_out = frame, statics_out = st, world_out = vcos_sleep 5000 w\<rparr>
         else if frameNextMethod state = 3 then
           Inr \<lparr>ret = 1, frame_out = frame + 1, statics_out = st,
                world_out = vcos_sleep 10000 w\<rparr>
         else if frameNextMethod state = 1 then
           case_FRAME_NEXT_TIMELAPSE state st frame w current_time keep_running
         else if frameNextMethod state = 2 then
           case_FRAME_NEXT_KEYPRESS state st frame w keep_running
         else if frameNextMethod state = 6 then
           case_FRAME_NEXT_IMMEDIATELY st frame w keep_running
         else if frameNextMethod state = 4 then
           Inr \<lparr>ret = 0, frame_out = frame, statics_out = st, world_out = w\<rparr>
         else if frameNextMethod state = 5 then
           case_FRAME_NEXT_SIGNAL state st frame w keep_running
         else
           Inr \<lparr>ret = keep_running, frame_out = frame, statics_out = st, world_out = w\<rparr>)"
  by (simp add: wait_for_next_frame_def FRAME_NEXT_defs overall_deadline_def deadline_reached_def
      Let_def)

lemma keypress_returns:
  "\<exists>res. case_FRAME_NEXT_KEYPRESS state st frame w k = Inr res \<and>
         (ret res = 0 \<or> ret res = k) \<and> frame_out res = frame + 1"
  by (simp add: case_FRAME_NEXT_KEYPRESS_def Let_def split: prod.splits)

lemma timelapse_returns:
  "\<not> (timelapse state = 0 \<and> timelapse_skips state st w) \<Longrightarrow>
   c = vcos_getmicrosecs64 w div 1000 \<Longrightarrow>
   \<exists>res. case_FRAME_NEXT_TIMELAPSE state st frame w c k = Inr res \<and> ret res = k \<and>
     frame_out res = frame + 1 + (if timelapse_skips state st w
                                   then timelapse_nskip state st w else 0)"
  by (auto simp: case_FRAME_NEXT_TIMELAPSE_def Let_def timelapse_skips_def timelapse_nskip_def)

lemma timelapse_skips_deadline:
  "timelapse_skips state (st0\<lparr>complete_time := d\<rparr>) w = timelapse_skips state st0 w"
  "timelapse_nskip state (st0\<lparr>complete_time := d\<rparr>) w = timelapse_nskip state st0 w"
  by (simp_all add: timelapse_skips_def timelapse_nskip_def)

subsection \<open>The overall deadline\<close>

text \<open>
  Claim C3, as stated, fails: with the deadline enabled and passed, a call under the
  FOREVER policy still returns 1 (continue).  Here the timeout is 1000 ms, the stored
  deadline is 5000 ms and the clock reads 10000 ms.
\<close>

theorem forever_ignores_deadline:
  "deadline_reached (state_of 1000 0 FRAME_NEXT_FOREVER)
     \<lparr>complete_time = 5000, next_frame_ms = - 1\<rparr> (world_at 10000000)
   \<and> wait_for_next_frame (state_of 1000 0 FRAME_NEXT_FOREVER)
       \<lparr>complete_time = 5000, next_frame_ms = - 1\<rparr> 7 (world_at 10000000)
     = Inr \<lparr>ret = 1, frame_out = 8,
            statics_out = \<lparr>complete_time = 5000, next_frame_ms = - 1\<rparr>,
            world_out = \<lparr>clock_us = 20000000, overrun_us = 0, keys = [], sigwait_result = 0, errno = 0,
                         trace = [Sleep 10000]\<rparr>\<rparr>"
  by (simp add: wait_for_next_frame_def FRAME_NEXT_defs deadline_reached_def overall_deadline_def
      vcos_getmicrosecs64_def vcos_sleep_def emit_def word_sle_eq state_of_def world_at_def)

text \<open>
  Claim C3, amended: when the overall deadline is enabled and the current time has
  reached or passed it, the call returns stop (0) under every method code other than
  FOREVER; under FOREVER every call returns continue (1), whatever the deadline.  One
  input is left out: a TIMELAPSE tick with a zero interval that is not the first and is
  late, where the interval is a zero divisor.  Every other TIMELAPSE tick with a zero
  interval is covered.
\<close>

theorem deadline_stops_all_but_forever:
  "(frameNextMethod state = FRAME_NEXT_FOREVER \<longrightarrow>
      (\<exists>res. wait_for_next_frame state st0 frame w = Inr res \<and> ret res = 1))
   \<and> (deadline_reached state st0 w \<and> frameNextMethod state \<noteq> FRAME_NEXT_FOREVER
        \<and> \<not> timelapse_traps state st0 w \<longrightarrow>
      (\<exists>res. wait_for_next_frame state st0 frame w = Inr res \<and> ret res = 0))"
proof -
  let ?st = "st0\<lparr>complete_time := overall_deadline state st0 w\<rparr>"
  show ?thesis
    using keypress_returns [of state ?st frame w 0]
      timelapse_returns [of state ?st w "vcos_getmicrosecs64 w div 1000" frame 0]
    by (auto simp: wfnf_dispatch Let_def FRAME_NEXT_defs case_FRAME_NEXT_IMMEDIATELY_def
        case_FRAME_NEXT_SIGNAL_def timelapse_traps_def timelapse_skips_deadline)
qed

theorem deadline_stops_all_but_forever_witness:
  "(\<exists>res. wait_for_next_frame (state_of 0 0 FRAME_NEXT_FOREVER) statics_init 7 (world_at 0)
            = Inr res \<and> ret res = 1)
   \<and> deadline_reached (state_of 1000 250 FRAME_NEXT_TIMELAPSE)
       \<lparr>complete_time = 5000, next_frame_ms = - 1\<rparr> (world_at 10000000)
   \<and> \<not> timelapse_traps (state_of 1000 250 FRAME_NEXT_TIMELAPSE)
       \<lparr>complete_time = 5000, next_frame_ms = - 1\<rparr> (world_at 10000000)
   \<and> (\<exists>res. wait_for_next_frame (state_of 1000 250 FRAME_NEXT_TIMELAPSE)
              \<lparr>complete_time = 5000, next_frame_ms = - 1\<rparr> 7 (world_at 10000000) = Inr res \<and>
            ret res = 0)
   \<and> deadline_reached (state_of 1000 0 FRAME_NEXT_TIMELAPSE)
       \<lparr>complete_time = 5000, next_frame_ms = 20000\<rparr> (world_at 10000000)
   \<and> \<not> timelapse_traps (state_of 1000 0 FRAME_NEXT_TIMELAPSE)
       \<lparr>complete_time = 5000, next_frame_ms = 20000\<rparr> (world_at 10000000)
   \<and> (\<exists>res. wait_for_next_frame (state_of 1000 0 FRAME_NEXT_TIMELAPSE)
              \<lparr>complete_time = 5000, next_frame_ms = 20000\<rparr> 7 (world_at 10000000) = Inr res \<and>
            ret res = 0)"
proof -
  have d1: "deadline_reached (state_of 1000 250 FRAME_NEXT_TIMELAPSE)
     \<lparr>complete_time = 5000, next_frame_ms = - 1\<rparr> (world_at 10000000)"
    by (simp add: deadline_reached_def overall_deadline_def vcos_getmicrosecs64_def word_sle_eq
        state_of_def world_at_def)
  have t1: "\<not> timelapse_traps (state_of 1000 250 FRAME_NEXT_TIMELAPSE)
       \<lparr>complete_time = 5000, next_frame_ms = - 1\<rparr> (world_at 10000000)"
    by (simp add: timelapse_traps_def state_of_def)
  have d2: "deadline_reached (state_of 1000 0 FRAME_NEXT_TIMELAPSE)
     \<lparr>complete_time = 5000, next_frame_ms = 20000\<rparr> (world_at 10000000)"
    by (simp add: deadline_reached_def overall_deadline_def vcos_getmicrosecs64_def word_sle_eq
        state_of_def world_at_def)
  have t2: "\<not> timelapse_traps (state_of 1000 0 FRAME_NEXT_TIMELAPSE)
       \<lparr>complete_time = 5000, next_frame_ms = 20000\<rparr> (world_at 10000000)"
    by (simp add: timelapse_traps_def timelapse_skips_def state_of_def world_at_def
        vcos_getmicrosecs64_def word_sless_alt)
  have n: "frameNextMethod (state_of 1000 250 FRAME_NEXT_TIMELAPSE) \<noteq> FRAME_NEXT_FOREVER"
    "frameNextMethod (state_of 1000 0 FRAME_NEXT_TIMELAPSE) \<noteq> FRAME_NEXT_FOREVER"
    "frameNextMethod (state_of 0 0 FRAME_NEXT_FOREVER) = FRAME_NEXT_FOREVER"
    by (simp_all add: state_of_def FRAME_NEXT_defs)
  show ?thesis
    using d1 t1 d2 t2 n
      deadline_stops_all_but_forever [of "state_of 0 0 FRAME_NEXT_FOREVER" statics_init 7
        "world_at 0"]
      deadline_stops_all_but_forever [of "state_of 1000 250 FRAME_NEXT_TIMELAPSE"
        "\<lparr>complete_time = 5000, next_frame_ms = - 1\<rparr>" 7 "world_at 10000000"]
      deadline_stops_all_but_forever [of "state_of 1000 0 FRAME_NEXT_TIMELAPSE"
        "\<lparr>complete_time = 5000, next_frame_ms = 20000\<rparr>" 7 "world_at 10000000"]
    by simp
qed

subsection \<open>The GPIO policy\<close>

text \<open>
  Claim C4, as stated, fails: a call in GPIO mode returns 0, which is stop.  Here the
  deadline is disabled and the clock reads 0.
\<close>

theorem gpio_returns_stop:
  "wait_for_next_frame (state_of 0 0 FRAME_NEXT_GPIO) statics_init 0 (world_at 0)
   = Inr \<lparr>ret = 0, frame_out = 0,
          statics_out = \<lparr>complete_time = 0, next_frame_ms = - 1\<rparr>,
          world_out = world_at 0\<rparr>"
  by (simp add: wait_for_next_frame_def FRAME_NEXT_defs statics_init_def vcos_getmicrosecs64_def
      state_of_def world_at_def)

text \<open>
  Claim C4, amended: every call in GPIO mode returns 0 (stop); it waits for nothing and
  writes nothing (the world is unchanged), leaves the frame counter as it was, and only
  initialises the overall deadline if this is the first call.
\<close>

theorem gpio_always_stop:
  "wait_for_next_frame (state\<lparr>frameNextMethod := FRAME_NEXT_GPIO\<rparr>) st0 frame w
   = Inr \<lparr>ret = 0, frame_out = frame,
          statics_out = st0\<lparr>complete_time := overall_deadline state st0 w\<rparr>,
          world_out = w\<rparr>"
  by (simp add: wait_for_next_frame_def FRAME_NEXT_defs overall_deadline_def)

subsection \<open>Method codes outside the seven policies\<close>

text \<open>
  Claim C10: for a method code outside 0..6 the call matches no case label: it performs
  no wait and emits nothing (the world is returned as it was), leaves the frame counter
  unchanged, and returns continue (1) while the overall deadline has not been reached and
  stop (0) once it has (the deadline being enabled and the time having reached it).
\<close>

theorem unknown_method_falls_through:
  assumes "\<not> (0 \<le>s frameNextMethod state \<and> frameNextMethod state \<le>s 6)"
  shows "wait_for_next_frame state st0 frame w
   = Inr \<lparr>ret = (if deadline_reached state st0 w then 0 else 1), frame_out = frame,
          statics_out = st0\<lparr>complete_time := overall_deadline state st0 w\<rparr>,
          world_out = w\<rparr>"
proof -
  have "frameNextMethod state \<noteq> 0" "frameNextMethod state \<noteq> 1" "frameNextMethod state \<noteq> 2"
    "frameNextMethod state \<noteq> 3" "frameNextMethod state \<noteq> 4" "frameNextMethod state \<noteq> 5"
    "frameNextMethod state \<noteq> 6"
    using assms by (auto simp: word_sle_eq)
  then show ?thesis
    by (simp add: wfnf_dispatch)
qed

theorem unknown_method_falls_through_witness:
  "\<not> (0 \<le>s frameNextMethod (state_of 1000 0 7) \<and> frameNextMethod (state_of 1000 0 7) \<le>s 6)
   \<and> wait_for_next_frame (state_of 1000 0 7) statics_init 4 (world_at 3000000)
     = Inr \<lparr>ret = 1, frame_out = 4,
            statics_out = \<lparr>complete_time = 4000, next_frame_ms = - 1\<rparr>,
            world_out = world_at 3000000\<rparr>
   \<and> \<not> (0 \<le>s frameNextMethod (state_of 1000 0 (- 1)) \<and> frameNextMethod (state_of 1000 0 (- 1)) \<le>s 6)
   \<and> wait_for_next_frame (state_of 1000 0 (- 1)) \<lparr>complete_time = 4000, next_frame_ms = - 1\<rparr> 4
       (world_at 4000000)
     = Inr \<lparr>ret = 0, frame_out = 4,
            statics_out = \<lparr>complete_time = 4000, next_frame_ms = - 1\<rparr>,
            world_out = world_at 4000000\<rparr>"
proof -
  have a: "\<not> (0 \<le>s frameNextMethod (state_of 1000 0 7) \<and> frameNextMethod (state_of 1000 0 7) \<le>s 6)"
    by (simp add: state_of_def word_sle_eq)
  have b: "\<not> (0 \<le>s frameNextMethod (state_of 1000 0 (- 1)) \<and>
              frameNextMethod (state_of 1000 0 (- 1)) \<le>s 6)"
    by (simp add: state_of_def word_sle_eq)
  show ?thesis
    using a b unknown_method_falls_through [OF a, of statics_init 4 "world_at 3000000"]
      unknown_method_falls_through [OF b, of "\<lparr>complete_time = 4000, next_frame_ms = - 1\<rparr>" 4
        "world_at 4000000"]
    by (simp add: deadline_reached_def overall_deadline_def vcos_getmicrosecs64_def word_sle_eq
        state_of_def world_at_def statics_init_def)
qed

subsection \<open>TIMELAPSE: catching up\<close>

text \<open>
  Claim C2: in TIMELAPSE mode with an interval of 1000 ms, a tick that is not the first and
  arrives 1500 ms after the target deadline computes skip = 1 + 1500 div 1000 = 2, moves
  the frame counter by its usual one plus exactly 2 extra frames, sleeps the remaining
  500 ms, and moves the deadline on by (2 + 1) * 1000 ms.  A lateness of exactly half the
  interval (500 ms) takes the skip branch (skip = 1, the skip notice is logged, the
  deadline moves by 2 intervals), whereas 499 ms takes the accept-late branch.
\<close>

theorem timelapse_catch_up:
  assumes "frameNextMethod state = FRAME_NEXT_TIMELAPSE" "timelapse state = 1000"
    "next_frame_ms st0 \<noteq> - 1"
  shows "(vcos_getmicrosecs64 w div 1000 = next_frame_ms st0 + 1500 \<longrightarrow>
          wait_for_next_frame state st0 frame w =
            Inr \<lparr>ret = (if deadline_reached state st0 w then 0 else 1),
                 frame_out = frame + 1 + 2,
                 statics_out = st0\<lparr>complete_time := overall_deadline state st0 w,
                                   next_frame_ms := next_frame_ms st0 + (2 + 1) * 1000\<rparr>,
                 world_out = vcos_sleep 500 (emit (LogSkip (frame + 1) (frame + 1 + 2)) w)\<rparr>)
       \<and> (vcos_getmicrosecs64 w div 1000 = next_frame_ms st0 + 500 \<longrightarrow>
          wait_for_next_frame state st0 frame w =
            Inr \<lparr>ret = (if deadline_reached state st0 w then 0 else 1),
                 frame_out = frame + 1 + 1,
                 statics_out = st0\<lparr>complete_time := overall_deadline state st0 w,
                                   next_frame_ms := next_frame_ms st0 + (1 + 1) * 1000\<rparr>,
                 world_out = vcos_sleep 500 (emit (LogSkip (frame + 1) (frame + 1 + 1)) w)\<rparr>)
       \<and> (vcos_getmicrosecs64 w div 1000 = next_frame_ms st0 + 499 \<longrightarrow>
          wait_for_next_frame state st0 frame w =
            Inr \<lparr>ret = (if deadline_reached state st0 w then 0 else 1),
                 frame_out = frame + 1,
                 statics_out = st0\<lparr>complete_time := overall_deadline state st0 w,
                                   next_frame_ms := next_frame_ms st0 + 1000\<rparr>,
                 world_out = emit (LogLate (frame + 1) 499) w\<rparr>)"
  using assms
  by (simp add: wfnf_dispatch FRAME_NEXT_defs case_FRAME_NEXT_TIMELAPSE_def Let_def
      word_sless_alt c_sdiv_def)

theorem timelapse_catch_up_witness:
  "wait_for_next_frame (state_of 0 1000 FRAME_NEXT_TIMELAPSE)
      \<lparr>complete_time = 0, next_frame_ms = 10000\<rparr> 5 (world_at 11500000)
    = Inr \<lparr>ret = 1, frame_out = 8,
           statics_out = \<lparr>complete_time = 0, next_frame_ms = 13000\<rparr>,
           world_out = \<lparr>clock_us = 12000000, overrun_us = 0, keys = [], sigwait_result = 0, errno = 0,
                        trace = [LogSkip 6 8, Sleep 500]\<rparr>\<rparr>
   \<and> wait_for_next_frame (state_of 0 1000 FRAME_NEXT_TIMELAPSE)
      \<lparr>complete_time = 0, next_frame_ms = 10000\<rparr> 5 (world_at 10500000)
    = Inr \<lparr>ret = 1, frame_out = 7,
           statics_out = \<lparr>complete_time = 0, next_frame_ms = 12000\<rparr>,
           world_out = \<lparr>clock_us = 11000000, overrun_us = 0, keys = [], sigwait_result = 0, errno = 0,
                        trace = [LogSkip 6 7, Sleep 500]\<rparr>\<rparr>
   \<and> wait_for_next_frame (state_of 0 1000 FRAME_NEXT_TIMELAPSE)
      \<lparr>complete_time = 0, next_frame_ms = 10000\<rparr> 5 (world_at 10499000)
    = Inr \<lparr>ret = 1, frame_out = 6,
           statics_out = \<lparr>complete_time = 0, next_frame_ms = 11000\<rparr>,
           world_out = \<lparr>clock_us = 10499000, overrun_us = 0, keys = [], sigwait_result = 0, errno = 0,
                        trace = [LogLate 6 499]\<rparr>\<rparr>"
  using timelapse_catch_up [of "state_of 0 1000 FRAME_NEXT_TIMELAPSE"
      "\<lparr>complete_time = 0, next_frame_ms = 10000\<rparr>" "world_at 11500000" 5]
    timelapse_catch_up [of "state_of 0 1000 FRAME_NEXT_TIMELAPSE"
      "\<lparr>complete_time = 0, next_frame_ms = 10000\<rparr>" "world_at 10500000" 5]
    timelapse_catch_up [of "state_of 0 1000 FRAME_NEXT_TIMELAPSE"
      "\<lparr>complete_time = 0, next_frame_ms = 10000\<rparr>" "world_at 10499000" 5]
  by (simp add: state_of_def world_at_def vcos_getmicrosecs64_def vcos_sleep_def emit_def
      deadline_reached_def overall_deadline_def)

subsection \<open>The frame counter\<close>

text \<open>
  Claim C7, as stated, fails for TIMELAPSE: a tick that is late by half an interval or more
  moves the counter by more than one.  Here the interval is 200 ms and the tick comes
  700 ms after the deadline: the counter goes from 0 to 5.
\<close>

theorem timelapse_skip_advances_by_more:
  "wait_for_next_frame (state_of 0 200 FRAME_NEXT_TIMELAPSE)
      \<lparr>complete_time = 0, next_frame_ms = 1000\<rparr> 0 (world_at 1700000)
    = Inr \<lparr>ret = 1, frame_out = 5,
           statics_out = \<lparr>complete_time = 0, next_frame_ms = 2000\<rparr>,
           world_out = \<lparr>clock_us = 1800000, overrun_us = 0, keys = [], sigwait_result = 0, errno = 0,
                        trace = [LogSkip 1 5, Sleep 100]\<rparr>\<rparr>
   \<and> (5 :: s32) \<noteq> 0 + 1"
  by (simp add: wait_for_next_frame_def FRAME_NEXT_defs case_FRAME_NEXT_TIMELAPSE_def Let_def
      state_of_def world_at_def vcos_getmicrosecs64_def vcos_sleep_def emit_def
      word_sless_alt word_sle_eq c_sdiv_def)

text \<open>
  Claim C7, amended: a single call increments the frame counter by exactly one for the
  KEYPRESS, FOREVER, IMMEDIATE and SIGNAL policies, and for a TIMELAPSE tick that skips no
  frame (the first tick, a tick on time, a tick less than half an interval late),
  whatever the interval; it leaves the counter unchanged for SINGLE and GPIO; and a
  TIMELAPSE tick that skips, the interval being non-zero, advances it by one plus skip,
  where skip = 1 + lateness / interval.  (A skipping tick with a zero interval is left
  out: the interval is a zero divisor there.)
\<close>

theorem frame_counter_step:
  "(frameNextMethod state \<in> {FRAME_NEXT_KEYPRESS, FRAME_NEXT_FOREVER,
        FRAME_NEXT_IMMEDIATELY, FRAME_NEXT_SIGNAL}
      \<or> frameNextMethod state = FRAME_NEXT_TIMELAPSE \<and> \<not> timelapse_skips state st0 w \<longrightarrow>
     (\<exists>res. wait_for_next_frame state st0 frame w = Inr res \<and> frame_out res = frame + 1))
   \<and> (frameNextMethod state \<in> {FRAME_NEXT_SINGLE, FRAME_NEXT_GPIO} \<longrightarrow>
     (\<exists>res. wait_for_next_frame state st0 frame w = Inr res \<and> frame_out res = frame))
   \<and> (frameNextMethod state = FRAME_NEXT_TIMELAPSE \<and> timelapse_skips state st0 w
        \<and> timelapse state \<noteq> 0 \<longrightarrow>
     (\<exists>res. wait_for_next_frame state st0 frame w = Inr res \<and>
            frame_out res = frame + 1 + timelapse_nskip state st0 w))"
proof -
  let ?st = "st0\<lparr>complete_time := overall_deadline state st0 w\<rparr>"
  let ?k = "if deadline_reached state st0 w then 0 else 1 :: s32"
  show ?thesis
    using keypress_returns [of state ?st frame w ?k]
      timelapse_returns [of state ?st w "vcos_getmicrosecs64 w div 1000" frame ?k]
    by (auto simp: wfnf_dispatch FRAME_NEXT_defs Let_def case_FRAME_NEXT_IMMEDIATELY_def
        case_FRAME_NEXT_SIGNAL_def timelapse_skips_deadline)
qed

theorem frame_counter_step_witness:
  "(\<exists>res. wait_for_next_frame (state_of 0 0 FRAME_NEXT_KEYPRESS) statics_init 41 (world_at 0)
            = Inr res \<and> frame_out res = 42)
   \<and> \<not> timelapse_skips (state_of 0 0 FRAME_NEXT_TIMELAPSE)
          \<lparr>complete_time = 0, next_frame_ms = 1000\<rparr> (world_at 400000)
   \<and> (\<exists>res. wait_for_next_frame (state_of 0 0 FRAME_NEXT_TIMELAPSE)
            \<lparr>complete_time = 0, next_frame_ms = 1000\<rparr> 41 (world_at 400000)
            = Inr res \<and> frame_out res = 42)
   \<and> (\<exists>res. wait_for_next_frame (state_of 0 0 FRAME_NEXT_SINGLE) statics_init 41 (world_at 0)
            = Inr res \<and> frame_out res = 41)
   \<and> timelapse_skips (state_of 0 200 FRAME_NEXT_TIMELAPSE)
        \<lparr>complete_time = 0, next_frame_ms = 1000\<rparr> (world_at 1700000)
   \<and> timelapse_nskip (state_of 0 200 FRAME_NEXT_TIMELAPSE)
        \<lparr>complete_time = 0, next_frame_ms = 1000\<rparr> (world_at 1700000) = 4
   \<and> (\<exists>res. wait_for_next_frame (state_of 0 200 FRAME_NEXT_TIMELAPSE)
            \<lparr>complete_time = 0, next_frame_ms = 1000\<rparr> 41 (world_at 1700000)
            = Inr res \<and> frame_out res = 46)"
proof -
  have s0: "\<not> timelapse_skips (state_of 0 0 FRAME_NEXT_TIMELAPSE)
          \<lparr>complete_time = 0, next_frame_ms = 1000\<rparr> (world_at 400000)"
    by (simp add: timelapse_skips_def state_of_def world_at_def vcos_getmicrosecs64_def
        word_sless_alt)
  have s1: "timelapse_skips (state_of 0 200 FRAME_NEXT_TIMELAPSE)
        \<lparr>complete_time = 0, next_frame_ms = 1000\<rparr> (world_at 1700000)"
    by (simp add: timelapse_skips_def state_of_def world_at_def vcos_getmicrosecs64_def
        word_sless_alt c_sdiv_def)
  have s4: "timelapse_nskip (state_of 0 200 FRAME_NEXT_TIMELAPSE)
        \<lparr>complete_time = 0, next_frame_ms = 1000\<rparr> (world_at 1700000) = 4"
    by (simp add: timelapse_nskip_def state_of_def world_at_def vcos_getmicrosecs64_def
        c_sdiv_def)
  show ?thesis
    using s0 s1 s4
      frame_counter_step [of "state_of 0 0 FRAME_NEXT_KEYPRESS" statics_init "world_at 0" 41]
      frame_counter_step [of "state_of 0 0 FRAME_NEXT_TIMELAPSE"
        "\<lparr>complete_time = 0, next_frame_ms = 1000\<rparr>" "world_at 400000" 41]
      frame_counter_step [of "state_of 0 0 FRAME_NEXT_SINGLE" statics_init "world_at 0" 41]
      frame_counter_step [of "state_of 0 200 FRAME_NEXT_TIMELAPSE"
        "\<lparr>complete_time = 0, next_frame_ms = 1000\<rparr>" "world_at 1700000" 41]
    by (simp add: state_of_def FRAME_NEXT_defs)
qed

subsection \<open>TIMELAPSE: steady state\<close>

text \<open>Facts about 64-bit words that hold small values.\<close>

lemma small_sint:
  fixes d :: u64
  assumes "unat d \<le> 1000"
  shows "sint d = uint d"
proof -
  have u: "uint d \<le> 1000" using assms uint_nat [of d] by linarith
  have z: "0 \<le> uint d" by (rule uint_ge_0)
  have p: "(1000::int) < 2 ^ 63" by simp
  have "signed_take_bit 63 (uint d) = uint d"
  proof (rule signed_take_bit_int_eq_self)
    show "- (2 ^ 63) \<le> uint d" using z p by linarith
    show "uint d < 2 ^ 63" using u p by linarith
  qed
  moreover have "sint d = signed_take_bit (LENGTH(64) - Suc 0) (uint d)" by (rule sint_uint)
  moreover have "LENGTH(64) - Suc 0 = 63" by simp
  ultimately show ?thesis by (simp only:)
qed

lemma small_nonneg:
  fixes d :: u64
  assumes "unat d \<le> 1000"
  shows "\<not> d <s 0"
proof -
  have "0 \<le> sint d" using small_sint [OF assms] uint_ge_0 [of d] by linarith
  moreover have "sint (0 :: u64) = 0" by (rule sint_0)
  ultimately show ?thesis unfolding word_sless_alt by linarith
qed

lemma small_ucast:
  fixes d :: u64
  assumes "unat d \<le> 1000"
  shows "(ucast (ucast d :: u32) :: u64) = d"
proof -
  have p: "(1000::nat) < 2 ^ 32" by simp
  have "unat (ucast d :: u32) = take_bit LENGTH(32) (unat d)"
    by (rule unsigned_ucast_eq)
  also have "\<dots> = unat d"
    by (rule take_bit_nat_eq_self) (use assms p in simp)
  finally have a: "unat (ucast d :: u32) = unat d" .
  have "unat (ucast (ucast d :: u32) :: u64) = take_bit LENGTH(64) (unat (ucast d :: u32))"
    by (rule unsigned_ucast_eq)
  also have "\<dots> = unat d"
    unfolding a by (rule take_bit_nat_eq_self) (use assms in simp)
  finally show ?thesis unfolding word_unat_eq_iff .
qed


lemma div_lower: fixes t n :: nat assumes "1000 * (n - 1000) \<le> t" shows "n - 1000 \<le> t div 1000"
  using assms by arith

lemma div_upper:
  fixes t n ov :: nat
  assumes "1000 \<le> n" and "t \<le> 1000 * (n - 1000) + 999 + ov" and "ov \<le> 1000000"
  shows "t div 1000 \<le> n"
  using assms by arith

lemma wake_time:
  fixes t n ov :: nat
  assumes "t div 1000 \<le> n"
  shows "t + 1000 * (n - t div 1000) + ov = 1000 * n + t mod 1000 + ov"
proof -
  define q where "q = t div 1000"
  define r where "r = t mod 1000"
  have e: "t = 1000 * q + r" unfolding q_def r_def by simp
  have l: "q \<le> n" using assms unfolding q_def .
  have "t + 1000 * (n - q) + ov = 1000 * n + r + ov"
    unfolding e using l by linarith
  then show ?thesis unfolding q_def r_def .
qed

lemma steady_step_words:
  fixes clock nxt ov :: u64
  assumes n: "1000 \<le> unat nxt"
    and lo: "1000 * (unat nxt - 1000) \<le> unat clock"
    and hi: "unat clock \<le> 1000 * (unat nxt - 1000) + 999 + unat ov"
    and ov: "unat ov \<le> 1000000"
    and small: "unat clock + 2000000 < 2 ^ 63"
  shows "unat (nxt - clock div 1000) = unat nxt - unat clock div 1000"
    and "unat nxt - 1000 \<le> unat clock div 1000"
    and "unat clock div 1000 \<le> unat nxt"
    and "unat (clock + 1000 * (nxt - clock div 1000) + ov) =
           1000 * unat nxt + unat clock mod 1000 + unat ov"
    and "unat (nxt + 1000) = unat nxt + 1000"
    and "nxt \<noteq> - 1"
proof -
  define t where "t = unat clock"
  define N where "N = unat nxt"
  define q where "q = unat clock div 1000"
  define dd where "dd = unat (nxt - clock div 1000)"
  have p63: "(2::nat) ^ 63 = 9223372036854775808" by simp
  have l64: "(2::nat) ^ LENGTH(64) = 18446744073709551616" by simp
  have sm: "t + 2000000 < 9223372036854775808" using small unfolding p63 t_def .
  have k: "unat (1000 :: u64) = 1000" by simp
  have c: "unat (clock div 1000) = q" unfolding unat_div k q_def ..
  have b1: "N - 1000 \<le> q" unfolding N_def q_def by (rule div_lower [OF lo])
  have b2: "q \<le> N" unfolding N_def q_def by (rule div_upper [OF n hi ov])
  have le: "clock div 1000 \<le> nxt" unfolding word_le_nat_alt c using b2 unfolding N_def .
  have d: "dd = N - q" unfolding dd_def N_def using unat_sub [OF le] unfolding c .
  have dsmall: "dd \<le> 1000" unfolding d using b1 by linarith
  have qt: "1000 * q \<le> t" unfolding q_def t_def by simp
  have nb: "1000 * N \<le> t + 1000000" using b1 qt by linarith
  have m: "unat (1000 * (nxt - clock div 1000)) = 1000 * dd"
  proof -
    have "unat (1000 :: u64) * unat (nxt - clock div 1000) < 2 ^ LENGTH(64)"
      unfolding k l64 using dsmall unfolding dd_def by linarith
    then have "unat (1000 * (nxt - clock div 1000)) =
        unat (1000 :: u64) * unat (nxt - clock div 1000)"
      by (rule unat_mult_lem [THEN iffD1])
    then show ?thesis unfolding k dd_def .
  qed
  have a1: "unat (clock + 1000 * (nxt - clock div 1000)) = t + 1000 * dd"
  proof -
    have "unat clock + unat (1000 * (nxt - clock div 1000)) < 2 ^ LENGTH(64)"
      unfolding m l64 using sm dsmall unfolding t_def by linarith
    then have "unat (clock + 1000 * (nxt - clock div 1000)) =
        unat clock + unat (1000 * (nxt - clock div 1000))"
      by (rule unat_add_lem [THEN iffD1])
    then show ?thesis unfolding m t_def .
  qed
  have a2: "unat (clock + 1000 * (nxt - clock div 1000) + ov) = t + 1000 * dd + unat ov"
  proof -
    have "unat (clock + 1000 * (nxt - clock div 1000)) + unat ov < 2 ^ LENGTH(64)"
      unfolding a1 l64 using sm dsmall ov by linarith
    then have "unat (clock + 1000 * (nxt - clock div 1000) + ov) =
        unat (clock + 1000 * (nxt - clock div 1000)) + unat ov"
      by (rule unat_add_lem [THEN iffD1])
    then show ?thesis unfolding a1 .
  qed
  show "unat (nxt - clock div 1000) = unat nxt - unat clock div 1000"
    using d unfolding dd_def N_def q_def .
  show "unat nxt - 1000 \<le> unat clock div 1000" using b1 unfolding N_def q_def .
  show "unat clock div 1000 \<le> unat nxt" using b2 unfolding N_def q_def .
  show "unat (clock + 1000 * (nxt - clock div 1000) + ov) =
           1000 * unat nxt + unat clock mod 1000 + unat ov"
    unfolding a2 d unfolding t_def N_def q_def
    by (rule wake_time) (use b2 in \<open>unfold N_def q_def\<close>)
  show s: "unat (nxt + 1000) = unat nxt + 1000"
  proof -
    have "unat nxt + unat (1000 :: u64) < 2 ^ LENGTH(64)"
      unfolding k l64 using nb sm unfolding N_def by linarith
    then have "unat (nxt + 1000) = unat nxt + unat (1000 :: u64)"
      by (rule unat_add_lem [THEN iffD1])
    then show ?thesis unfolding k .
  qed
  show "nxt \<noteq> - 1"
  proof
    assume e: "nxt = - 1"
    have "nxt + 1000 = 999" unfolding e by simp
    then have "unat (nxt + 1000) = unat (999 :: u64)" by (rule arg_cong)
    also have "unat (999 :: u64) = 999" by simp
    finally have "unat (nxt + 1000) = 999" .
    with s n show False by linarith
  qed
qed

text \<open>A tick that starts in step with the deadline is not late, sleeps exactly the
  time that remains to the deadline, moves the deadline by one interval, and ends in
  step with the new deadline.\<close>

lemma steady_tick:
  assumes m: "frameNextMethod state = FRAME_NEXT_TIMELAPSE" and i: "timelapse state = 1000"
    and s: "in_step st w" and ov: "unat (overrun_us w) \<le> 1000000"
    and small: "unat (clock_us w) + 2000000 < 2 ^ 63"
  shows "\<not> next_frame_ms st - vcos_getmicrosecs64 w div 1000 <s 0"
    and "wait_for_next_frame state st frame w =
      Inr \<lparr>ret = (if deadline_reached state st w then 0 else 1), frame_out = frame + 1,
           statics_out = st\<lparr>complete_time := overall_deadline state st w,
                            next_frame_ms := next_frame_ms st + 1000\<rparr>,
           world_out = vcos_sleep (ucast (next_frame_ms st - vcos_getmicrosecs64 w div 1000)) w\<rparr>"
    and "in_step (st\<lparr>complete_time := c, next_frame_ms := next_frame_ms st + 1000\<rparr>)
           (vcos_sleep (ucast (next_frame_ms st - vcos_getmicrosecs64 w div 1000)) w)"
    and "unat (clock_us (vcos_sleep (ucast (next_frame_ms st - vcos_getmicrosecs64 w div 1000)) w))
           \<le> unat (clock_us w) + 2000000"
proof -
  let ?d = "next_frame_ms st - clock_us w div 1000"
  have g: "vcos_getmicrosecs64 w = clock_us w" by (simp add: vcos_getmicrosecs64_def)
  have n: "1000 \<le> unat (next_frame_ms st)"
    and lo: "1000 * (unat (next_frame_ms st) - 1000) \<le> unat (clock_us w)"
    and hi: "unat (clock_us w) \<le> 1000 * (unat (next_frame_ms st) - 1000) + 999 +
               unat (overrun_us w)"
    using s unfolding in_step_def by blast+
  note w = steady_step_words [OF n lo hi ov small]
  have dsmall: "unat ?d \<le> 1000" unfolding w(1) using w(2) by linarith
  have nn: "\<not> ?d <s 0" by (rule small_nonneg [OF dsmall])
  have uc: "(ucast (ucast ?d :: u32) :: u64) = ?d" by (rule small_ucast [OF dsmall])
  show "\<not> next_frame_ms st - vcos_getmicrosecs64 w div 1000 <s 0" unfolding g by (rule nn)
  show "wait_for_next_frame state st frame w =
      Inr \<lparr>ret = (if deadline_reached state st w then 0 else 1), frame_out = frame + 1,
           statics_out = st\<lparr>complete_time := overall_deadline state st w,
                            next_frame_ms := next_frame_ms st + 1000\<rparr>,
           world_out = vcos_sleep (ucast (next_frame_ms st - vcos_getmicrosecs64 w div 1000)) w\<rparr>"
    using m i nn w(6)
    by (simp add: wfnf_dispatch FRAME_NEXT_defs case_FRAME_NEXT_TIMELAPSE_def Let_def g)
  have clk: "clock_us (vcos_sleep (ucast ?d) w) = clock_us w + 1000 * ?d + overrun_us w"
    unfolding vcos_sleep_def emit_def uc by simp
  have ovr: "overrun_us (vcos_sleep (ucast ?d) w) = overrun_us w"
    unfolding vcos_sleep_def emit_def by simp
  define t where "t = unat (clock_us w)"
  define N where "N = unat (next_frame_ms st)"
  define q where "q = t div 1000"
  define r where "r = t mod 1000"
  have e: "t = 1000 * q + r" unfolding q_def r_def by simp
  have r: "r < 1000" unfolding r_def by simp
  have b1: "N - 1000 \<le> q" using w(2) unfolding N_def q_def t_def .
  have t': "unat (clock_us (vcos_sleep (ucast ?d) w)) = 1000 * N + r + unat (overrun_us w)"
    unfolding clk w(4) N_def r_def t_def ..
  show "in_step (st\<lparr>complete_time := c, next_frame_ms := next_frame_ms st + 1000\<rparr>)
           (vcos_sleep (ucast (next_frame_ms st - vcos_getmicrosecs64 w div 1000)) w)"
    unfolding g in_step_def t' ovr using w(5) r unfolding N_def by simp
  show "unat (clock_us (vcos_sleep (ucast (next_frame_ms st - vcos_getmicrosecs64 w div 1000)) w))
           \<le> unat (clock_us w) + 2000000"
    unfolding g t' using e b1 r ov unfolding t_def by linarith
qed

text \<open>The first tick sleeps one interval, sets the deadline one interval after the
  time it reads when the sleep is over, and ends in step with it.\<close>

lemma first_tick:
  assumes m: "frameNextMethod state = FRAME_NEXT_TIMELAPSE" and i: "timelapse state = 1000"
    and f: "next_frame_ms st = - 1" and ov: "unat (overrun_us w) \<le> 1000000"
    and small: "unat (clock_us w) + 2000000 < 2 ^ 63"
  shows "wait_for_next_frame state st frame w =
      Inr \<lparr>ret = (if deadline_reached state st w then 0 else 1), frame_out = frame + 1,
           statics_out = st\<lparr>complete_time := overall_deadline state st w,
              next_frame_ms := (clock_us w + 1000000 + overrun_us w) div 1000 + 1000\<rparr>,
           world_out = vcos_sleep 1000 w\<rparr>"
    and "in_step (st\<lparr>complete_time := c,
              next_frame_ms := (clock_us w + 1000000 + overrun_us w) div 1000 + 1000\<rparr>)
           (vcos_sleep 1000 w)"
    and "unat (clock_us (vcos_sleep 1000 w)) \<le> unat (clock_us w) + 2000000"
proof -
  let ?c = "clock_us w + 1000000 + overrun_us w"
  have clk: "clock_us (vcos_sleep 1000 w) = ?c"
    unfolding vcos_sleep_def emit_def by simp
  have ovr: "overrun_us (vcos_sleep 1000 w) = overrun_us w"
    unfolding vcos_sleep_def emit_def by simp
  show "wait_for_next_frame state st frame w =
      Inr \<lparr>ret = (if deadline_reached state st w then 0 else 1), frame_out = frame + 1,
           statics_out = st\<lparr>complete_time := overall_deadline state st w,
              next_frame_ms := (clock_us w + 1000000 + overrun_us w) div 1000 + 1000\<rparr>,
           world_out = vcos_sleep 1000 w\<rparr>"
    using m i f
    by (simp add: wfnf_dispatch FRAME_NEXT_defs case_FRAME_NEXT_TIMELAPSE_def Let_def
        vcos_getmicrosecs64_def clk)
  define t where "t = unat (clock_us w)"
  define o' where "o' = unat (overrun_us w)"
  have p63: "(2::nat) ^ 63 = 9223372036854775808" by simp
  have l64: "(2::nat) ^ LENGTH(64) = 18446744073709551616" by simp
  have sm: "t + 2000000 < 9223372036854775808" using small unfolding p63 t_def .
  have k6: "unat (1000000 :: u64) = 1000000" by simp
  have k3: "unat (1000 :: u64) = 1000" by simp
  have a1: "unat (clock_us w + 1000000) = t + 1000000"
  proof -
    have "unat (clock_us w) + unat (1000000 :: u64) < 2 ^ LENGTH(64)"
      unfolding k6 l64 using sm unfolding t_def by linarith
    then have "unat (clock_us w + 1000000) = unat (clock_us w) + unat (1000000 :: u64)"
      by (rule unat_add_lem [THEN iffD1])
    then show ?thesis unfolding k6 t_def .
  qed
  have a2: "unat ?c = t + 1000000 + o'"
  proof -
    have "unat (clock_us w + 1000000) + unat (overrun_us w) < 2 ^ LENGTH(64)"
      unfolding a1 l64 using sm ov by linarith
    then have "unat ?c = unat (clock_us w + 1000000) + unat (overrun_us w)"
      by (rule unat_add_lem [THEN iffD1])
    then show ?thesis unfolding a1 o'_def .
  qed
  define q where "q = (t + 1000000 + o') div 1000"
  define r where "r = (t + 1000000 + o') mod 1000"
  have e: "t + 1000000 + o' = 1000 * q + r" unfolding q_def r_def by simp
  have r: "r < 1000" unfolding r_def by simp
  have dv: "unat (?c div 1000) = q" unfolding unat_div k3 a2 q_def ..
  have nx: "unat (?c div 1000 + 1000) = q + 1000"
  proof -
    have "unat (?c div 1000) + unat (1000 :: u64) < 2 ^ LENGTH(64)"
      unfolding dv k3 l64 using e sm ov unfolding o'_def by linarith
    then have "unat (?c div 1000 + 1000) = unat (?c div 1000) + unat (1000 :: u64)"
      by (rule unat_add_lem [THEN iffD1])
    then show ?thesis unfolding dv k3 .
  qed
  show "in_step (st\<lparr>complete_time := c,
              next_frame_ms := (clock_us w + 1000000 + overrun_us w) div 1000 + 1000\<rparr>)
           (vcos_sleep 1000 w)"
    unfolding in_step_def clk ovr using nx a2 e r by simp
  show "unat (clock_us (vcos_sleep 1000 w)) \<le> unat (clock_us w) + 2000000"
    unfolding clk a2 using ov unfolding t_def o'_def by linarith
qed

lemma vcos_sleep_overrun: "overrun_us (vcos_sleep ms w) = overrun_us w"
  unfolding vcos_sleep_def emit_def by simp

lemma steady_ticks:
  assumes m: "frameNextMethod state = FRAME_NEXT_TIMELAPSE" and i: "timelapse state = 1000"
  shows "in_step st w \<Longrightarrow> unat (overrun_us w) \<le> 1000000 \<Longrightarrow>
     unat (clock_us w) + n * 2000000 < 2 ^ 63 \<Longrightarrow>
     \<exists>st' w'. ticks n state (st, frame, w) = Inr (st', frame + of_nat n, w')
        \<and> next_frame_ms st' = next_frame_ms st + of_nat n * 1000
        \<and> in_step st' w' \<and> overrun_us w' = overrun_us w
        \<and> unat (clock_us w') \<le> unat (clock_us w) + n * 2000000"
proof (induction n arbitrary: st frame w)
  case 0
  then show ?case by simp
next
  case (Suc n)
  let ?st = "st\<lparr>complete_time := overall_deadline state st w,
                 next_frame_ms := next_frame_ms st + 1000\<rparr>"
  let ?w = "vcos_sleep (ucast (next_frame_ms st - vcos_getmicrosecs64 w div 1000)) w"
  have small: "unat (clock_us w) + 2000000 < 2 ^ 63" using Suc.prems(3) by simp
  note t = steady_tick [OF m i Suc.prems(1) Suc.prems(2) small]
  have 1: "in_step ?st ?w" by (rule t(3))
  have 2: "unat (overrun_us ?w) \<le> 1000000"
    unfolding vcos_sleep_overrun by (rule Suc.prems(2))
  have 3: "unat (clock_us ?w) + n * 2000000 < 2 ^ 63"
    using Suc.prems(3) t(4) by simp
  from Suc.IH [OF 1 2 3, of "frame + 1"]
  obtain st' w' where r: "ticks n state (?st, frame + 1, ?w) = Inr (st', frame + 1 + of_nat n, w')"
    and nx: "next_frame_ms st' = next_frame_ms ?st + of_nat n * 1000"
    and st: "in_step st' w'" and o: "overrun_us w' = overrun_us ?w"
    and c: "unat (clock_us w') \<le> unat (clock_us ?w) + n * 2000000"
    by blast
  have u: "ticks (Suc n) state (st, frame, w) = ticks n state (?st, frame + 1, ?w)"
    unfolding ticks.simps t(2) by simp
  have a: "frame + 1 + of_nat n = frame + of_nat (Suc n)" by simp
  have b: "next_frame_ms ?st + of_nat n * 1000 = next_frame_ms st + of_nat (Suc n) * 1000"
    by (simp add: algebra_simps)
  have d: "unat (clock_us w') \<le> unat (clock_us w) + Suc n * 2000000"
    using c t(4) by simp
  show ?case
    unfolding u r a [symmetric] using nx st o d unfolding b vcos_sleep_overrun by simp
qed

text \<open>
  Claim C6: in TIMELAPSE mode with an interval of 1000 ms and no processing between
  ticks, started fresh, the first tick sets the deadline one interval after the time
  \<open>start\<close> that it reads when its sleep is over
  (\<open>(clock_us w + 1000000 + overrun_us w) div 1000\<close>, in milliseconds).  After \<open>n\<close>
  ticks, for every \<open>n\<close> from 1 to 100, the deadline is exactly \<open>start + n * 1000\<close> and
  the clock is in step with it; the tick that follows is not late, sleeps exactly the
  time that remains to the deadline, and moves the deadline by exactly one interval.
  So after 100 ticks the deadline has not drifted from \<open>start + 100 * 1000\<close>.  The sleeps
  need not be exact: each may overrun by up to one interval.  (The clock is taken to be
  far from the end of its 64-bit range.)
\<close>

theorem timelapse_steady_state:
  assumes m: "frameNextMethod state = FRAME_NEXT_TIMELAPSE" and i: "timelapse state = 1000"
    and f: "next_frame_ms st0 = - 1"
    and ov: "unat (overrun_us w) \<le> 1000000"
    and n: "1 \<le> n" "n \<le> 100"
    and small: "unat (clock_us w) + 101 * 2000000 < 2 ^ 63"
  shows "\<exists>st wn. ticks n state (st0, frame, w) = Inr (st, frame + of_nat n, wn)
     \<and> next_frame_ms st = (clock_us w + 1000000 + overrun_us w) div 1000 + of_nat n * 1000
     \<and> in_step st wn
     \<and> \<not> next_frame_ms st - vcos_getmicrosecs64 wn div 1000 <s 0
     \<and> wait_for_next_frame state st (frame + of_nat n) wn =
         Inr \<lparr>ret = (if deadline_reached state st wn then 0 else 1),
              frame_out = frame + of_nat n + 1,
              statics_out = st\<lparr>complete_time := overall_deadline state st wn,
                               next_frame_ms := next_frame_ms st + 1000\<rparr>,
              world_out =
                vcos_sleep (ucast (next_frame_ms st - vcos_getmicrosecs64 wn div 1000)) wn\<rparr>"
proof -
  obtain k where k: "n = Suc k" using n(1) by (cases n) simp_all
  let ?st = "st0\<lparr>complete_time := overall_deadline state st0 w,
              next_frame_ms := (clock_us w + 1000000 + overrun_us w) div 1000 + 1000\<rparr>"
  let ?w = "vcos_sleep 1000 w"
  have s1: "unat (clock_us w) + 2000000 < 2 ^ 63" using small by simp
  note t = first_tick [OF m i f ov s1]
  have 1: "in_step ?st ?w" by (rule t(2))
  have 2: "unat (overrun_us ?w) \<le> 1000000" unfolding vcos_sleep_overrun by (rule ov)
  have 3: "unat (clock_us ?w) + k * 2000000 < 2 ^ 63"
    using small t(3) n(2) k by simp
  from steady_ticks [OF m i 1 2 3, of "frame + 1"]
  obtain st wn where r: "ticks k state (?st, frame + 1, ?w) = Inr (st, frame + 1 + of_nat k, wn)"
    and nx: "next_frame_ms st = next_frame_ms ?st + of_nat k * 1000"
    and st: "in_step st wn" and o: "overrun_us wn = overrun_us ?w"
    and c: "unat (clock_us wn) \<le> unat (clock_us ?w) + k * 2000000"
    by blast
  have u: "ticks n state (st0, frame, w) = ticks k state (?st, frame + 1, ?w)"
    unfolding k ticks.simps t(1) by simp
  have a: "frame + 1 + of_nat k = frame + of_nat n" unfolding k by simp
  have b: "next_frame_ms st =
      (clock_us w + 1000000 + overrun_us w) div 1000 + of_nat n * 1000"
    unfolding nx k by (simp add: algebra_simps)
  have ov': "unat (overrun_us wn) \<le> 1000000" unfolding o vcos_sleep_overrun by (rule ov)
  have s2: "unat (clock_us wn) + 2000000 < 2 ^ 63"
    using c t(3) small n(2) k by simp
  note t2 = steady_tick [OF m i st ov' s2]
  show ?thesis
    unfolding u r a using b st t2(1) t2(2) by simp
qed

theorem timelapse_steady_state_witness:
  "(\<exists>st wn. ticks 100 (state_of 0 1000 FRAME_NEXT_TIMELAPSE) (statics_init, 0, world_slow)
             = Inr (st, 100, wn)
      \<and> next_frame_ms st = 1005 + 100 * 1000)
   \<and> ticks (Suc (Suc (Suc 0))) (state_of 0 1000 FRAME_NEXT_TIMELAPSE)
         (statics_init, 0, world_slow)
       = Inr (\<lparr>complete_time = 0, next_frame_ms = 1005 + 3 * 1000\<rparr>, 3,
              \<lparr>clock_us = 3010000, overrun_us = 5000, keys = [], sigwait_result = 0, errno = 0,
               trace = [Sleep 1000, Sleep 1000, Sleep 995]\<rparr>)"
proof
  have h: "frameNextMethod (state_of 0 1000 FRAME_NEXT_TIMELAPSE) = FRAME_NEXT_TIMELAPSE"
    "timelapse (state_of 0 1000 FRAME_NEXT_TIMELAPSE) = 1000"
    "next_frame_ms statics_init = - 1"
    "unat (overrun_us world_slow) \<le> 1000000"
    "(1::nat) \<le> 100" "(100::nat) \<le> 100"
    "unat (clock_us world_slow) + 101 * 2000000 < 2 ^ 63"
    by (simp_all add: state_of_def statics_init_def world_slow_def)
  from timelapse_steady_state [OF h, of 0]
  obtain st wn where
    "ticks 100 (state_of 0 1000 FRAME_NEXT_TIMELAPSE) (statics_init, 0, world_slow)
       = Inr (st, 0 + of_nat 100, wn)"
    "next_frame_ms st =
       (clock_us world_slow + 1000000 + overrun_us world_slow) div 1000 + of_nat 100 * 1000"
    by blast
  then show "\<exists>st wn. ticks 100 (state_of 0 1000 FRAME_NEXT_TIMELAPSE)
        (statics_init, 0, world_slow) = Inr (st, 100, wn)
      \<and> next_frame_ms st = 1005 + 100 * 1000"
    by (simp add: world_slow_def)
next
  show "ticks (Suc (Suc (Suc 0))) (state_of 0 1000 FRAME_NEXT_TIMELAPSE)
         (statics_init, 0, world_slow)
       = Inr (\<lparr>complete_time = 0, next_frame_ms = 1005 + 3 * 1000\<rparr>, 3,
              \<lparr>clock_us = 3010000, overrun_us = 5000, keys = [], sigwait_result = 0, errno = 0,
               trace = [Sleep 1000, Sleep 1000, Sleep 995]\<rparr>)"
    by (simp add: wait_for_next_frame_def FRAME_NEXT_defs case_FRAME_NEXT_TIMELAPSE_def Let_def
        state_of_def statics_init_def world_slow_def vcos_getmicrosecs64_def vcos_sleep_def
        emit_def word_sless_alt word_sle_eq)
qed

section \<open>Properties of encoder_buffer_callback\<close>

lemmas callback_defs =
  encoder_buffer_callback_def callback_write_def callback_resubmit_def callback_finish_def
  mmal_buffer_header_release_def mmal_queue_get_def vcos_semaphore_post_def cb_emit_def
  session_start_def mk_delivery_def MMAL_SUCCESS_def MMAL_BUFFER_HEADER_FLAG_FRAME_END_def
  MMAL_BUFFER_HEADER_FLAG_TRANSMISSION_FAILED_def

subsection \<open>The parts of the callback\<close>

lemma callback_write_semaphore:
  "complete_semaphore (snd (callback_write port buffer env s)) = complete_semaphore s"
  by (simp add: callback_write_def cb_emit_def Let_def split: prod.splits)

lemma callback_write_complete:
  "fst (callback_write port buffer env s) =
     (if userdata port \<and> (has_marker buffer \<or> short_write buffer env s) then 1 else 0)"
  by (auto simp: callback_write_def cb_emit_def Let_def has_marker_def short_write_def sink_fd_def
      split: prod.splits if_splits)

lemma callback_finish_semaphore:
  "complete_semaphore (callback_finish c s) = complete_semaphore s + (if c \<noteq> 0 then 1 else 0)"
  by (simp add: callback_finish_def vcos_semaphore_post_def cb_emit_def Let_def)

lemma callback_resubmit_cases:
  "callback_resubmit port env s = Inl f \<Longrightarrow> \<not> userdata port \<and> is_enabled port"
  by (simp add: callback_resubmit_def Let_def split: if_splits prod.splits)

lemma callback_resubmit_semaphore:
  "callback_resubmit port env s = Inr s' \<Longrightarrow>
     complete_semaphore s' = complete_semaphore s \<and> outputFileFD s' = outputFileFD s
     \<and> cb_fault s' = cb_fault s"
  by (auto simp: callback_resubmit_def mmal_queue_get_def cb_emit_def Let_def
      split: if_splits list.splits)


lemma callback_semaphore:
  "complete_semaphore (encoder_buffer_callback port buffer env s) =
     complete_semaphore s +
       (if userdata port \<and> (has_marker buffer \<or> short_write buffer env s) then 1 else 0)"
proof -
  obtain c s1 where cw: "callback_write port buffer env s = (c, s1)"
    by (cases "callback_write port buffer env s")
  have c: "c = (if userdata port \<and> (has_marker buffer \<or> short_write buffer env s) then 1 else 0)"
    using callback_write_complete [of port buffer env s] cw by simp
  have s1: "complete_semaphore s1 = complete_semaphore s"
    using callback_write_semaphore [of port buffer env s] cw by simp
  let ?s2 = "mmal_buffer_header_release buffer s1"
  have s2: "complete_semaphore ?s2 = complete_semaphore s"
    using s1 by (simp add: mmal_buffer_header_release_def cb_emit_def)
  show ?thesis
  proof (cases "callback_resubmit port env ?s2")
    case (Inl f)
    then have "\<not> userdata port" by (simp add: callback_resubmit_cases)
    with Inl s2 show ?thesis
      by (simp add: encoder_buffer_callback_def cw)
  next
    case (Inr s5)
    then have "complete_semaphore s5 = complete_semaphore s"
      using callback_resubmit_semaphore [OF Inr] s2 by simp
    with Inr c show ?thesis
      by (simp add: encoder_buffer_callback_def cw callback_finish_semaphore)
  qed
qed

lemma callback_fault:
  assumes "userdata port"
  shows "cb_fault (encoder_buffer_callback port buffer env s) = cb_fault s"
proof -
  obtain c s1 where cw: "callback_write port buffer env s = (c, s1)"
    by (cases "callback_write port buffer env s")
  have s1: "cb_fault s1 = cb_fault s"
    using cw by (auto simp: callback_write_def cb_emit_def Let_def split: if_splits prod.splits)
  let ?s2 = "mmal_buffer_header_release buffer s1"
  have s2: "cb_fault ?s2 = cb_fault s"
    using s1 by (simp add: mmal_buffer_header_release_def cb_emit_def)
  show ?thesis
  proof (cases "callback_resubmit port env ?s2")
    case (Inl f)
    with assms show ?thesis using callback_resubmit_cases [OF Inl] by simp
  next
    case (Inr s5)
    then have "cb_fault s5 = cb_fault s"
      using callback_resubmit_semaphore [OF Inr] s2 by simp
    with Inr show ?thesis
      by (simp add: encoder_buffer_callback_def cw callback_finish_def vcos_semaphore_post_def
          cb_emit_def Let_def)
  qed
qed

lemma callback_write_releases:
  "count_list (cb_trace (snd (callback_write port buffer env s))) (Release i) =
     count_list (cb_trace s) (Release i)"
  by (simp add: callback_write_def cb_emit_def Let_def split: prod.splits)

lemma callback_resubmit_releases:
  "callback_resubmit port env s = Inr s' \<Longrightarrow>
     count_list (cb_trace s') (Release i) = count_list (cb_trace s) (Release i)"
  by (auto simp: callback_resubmit_def mmal_queue_get_def cb_emit_def Let_def
      split: if_splits list.splits)

lemma callback_finish_releases:
  "count_list (cb_trace (callback_finish c s)) (Release i) = count_list (cb_trace s) (Release i)"
  by (simp add: callback_finish_def vcos_semaphore_post_def cb_emit_def Let_def)

lemma callback_write_short:
  assumes "userdata port" "short_write buffer env s"
  shows "\<exists>evs. callback_write port buffer env s =
           (1, s\<lparr>outputFileFD := sink_fd env s, cb_trace := cb_trace s @ evs\<rparr>)
         \<and> Printf ''Write error, aborting'' \<in> set evs"
  using assms
  by (auto simp: callback_write_def cb_emit_def Let_def short_write_def sink_fd_def)

lemma callback_resubmit_trace:
  "callback_resubmit port env s = Inr s' \<Longrightarrow> \<exists>evs. cb_trace s' = cb_trace s @ evs"
  by (auto simp: callback_resubmit_def mmal_queue_get_def cb_emit_def Let_def
      split: if_splits list.splits)

lemma callback_write_queue:
  "pool_queue (snd (callback_write port buffer env s)) = pool_queue s"
  by (simp add: callback_write_def cb_emit_def Let_def split: prod.splits)

lemma callback_write_trace:
  "\<exists>evs. cb_trace (snd (callback_write port buffer env s)) = cb_trace s @ evs"
  by (simp add: callback_write_def cb_emit_def Let_def split: prod.splits)

lemma callback_resubmit_fate:
  "callback_resubmit port env s = Inr s' \<Longrightarrow>
     \<exists>evs. cb_trace s' = cb_trace s @ evs \<and>
       (b \<in> set (pool_queue s) \<longrightarrow>
          b \<in> set (pool_queue s') \<or>
          is_enabled port \<and> userdata port \<and> SendBuffer b \<in> set evs \<and>
          (send_status env \<noteq> MMAL_SUCCESS \<longrightarrow>
             LogError ''Unable to return a buffer to the encoder port'' \<in> set evs))"
  by (auto simp: callback_resubmit_def mmal_queue_get_def cb_emit_def Let_def
      split: if_splits list.splits)

lemma callback_finish_trace:
  "\<exists>evs. cb_trace (callback_finish c s) = cb_trace s @ evs"
  "pool_queue (callback_finish c s) = pool_queue s"
  by (simp_all add: callback_finish_def vcos_semaphore_post_def cb_emit_def Let_def)

lemma buffer_fate:
  "buf_id buffer \<in> set (pool_queue (encoder_buffer_callback port buffer env s)) \<or>
   is_enabled port \<and> userdata port \<and>
   SendBuffer (buf_id buffer) \<in>
     set (drop (length (cb_trace s)) (cb_trace (encoder_buffer_callback port buffer env s))) \<and>
   (send_status env \<noteq> MMAL_SUCCESS \<longrightarrow>
      LogError ''Unable to return a buffer to the encoder port'' \<in>
        set (drop (length (cb_trace s)) (cb_trace (encoder_buffer_callback port buffer env s))))"
proof -
  obtain c s1 where cw: "callback_write port buffer env s = (c, s1)"
    by (cases "callback_write port buffer env s")
  obtain e1 where e1: "cb_trace s1 = cb_trace s @ e1"
    using callback_write_trace [of port buffer env s] cw by auto
  let ?s2 = "mmal_buffer_header_release buffer s1"
  have q: "buf_id buffer \<in> set (pool_queue ?s2)"
    by (simp add: mmal_buffer_header_release_def cb_emit_def)
  have t2: "cb_trace ?s2 = cb_trace s @ e1 @ [Release (buf_id buffer)]"
    by (simp add: mmal_buffer_header_release_def cb_emit_def e1)
  show ?thesis
  proof (cases "callback_resubmit port env ?s2")
    case (Inl f)
    with q show ?thesis
      by (simp add: encoder_buffer_callback_def cw)
  next
    case (Inr s5)
    obtain e2 where e2: "cb_trace s5 = cb_trace ?s2 @ e2"
      and fate: "buf_id buffer \<in> set (pool_queue s5) \<or>
          is_enabled port \<and> userdata port \<and> SendBuffer (buf_id buffer) \<in> set e2 \<and>
          (send_status env \<noteq> MMAL_SUCCESS \<longrightarrow>
             LogError ''Unable to return a buffer to the encoder port'' \<in> set e2)"
      using callback_resubmit_fate [OF Inr, of "buf_id buffer"] q by blast
    obtain e3 where e3: "cb_trace (callback_finish c s5) = cb_trace s5 @ e3"
      using callback_finish_trace(1) [of c s5] by blast
    have r: "encoder_buffer_callback port buffer env s = callback_finish c s5"
      by (simp add: encoder_buffer_callback_def cw Inr)
    have n: "drop (length (cb_trace s)) (cb_trace (callback_finish c s5)) =
        e1 @ [Release (buf_id buffer)] @ e2 @ e3"
      unfolding e3 e2 t2 by simp
    show ?thesis
      unfolding r n callback_finish_trace(2) using fate by auto
  qed
qed

subsection \<open>Sessions\<close>

lemma deliver_plain:
  "cb_fault s = None \<Longrightarrow> \<forall>d \<in> set ds. plain_delivery d \<Longrightarrow>
     complete_semaphore (deliver_all ds s) = complete_semaphore s \<and>
     cb_fault (deliver_all ds s) = None"
proof (induction ds arbitrary: s)
  case Nil
  then show ?case by simp
next
  case (Cons d ds)
  let ?s' = "encoder_buffer_callback (d_port d) (d_buffer d) (d_env d) s"
  have p: "plain_delivery d" using Cons.prems(2) by simp
  have f: "cb_fault ?s' = None"
    using p Cons.prems(1) by (simp add: callback_fault plain_delivery_def)
  have n: "complete_semaphore ?s' = complete_semaphore s"
    using p by (simp add: callback_semaphore plain_delivery_def short_write_def)
  show ?case
    using Cons.IH [OF f] Cons.prems(2) f n by (simp add: Let_def)
qed

lemma deliver_all_append:
  "cb_fault (deliver_all ds s) = None \<Longrightarrow> deliver_all (ds @ es) s = deliver_all es (deliver_all ds s)"
  by (induction ds arbitrary: s) (auto simp: Let_def)

subsection \<open>The completion post\<close>

text \<open>
  Claim C1, as stated, fails: a post is also made in response to a buffer that carries no
  marker, when the write of its payload comes back short.  Here a 4096-byte buffer with
  no flags is delivered at the start of a session and \<open>write\<close> returns 100.
\<close>

theorem post_without_marker:
  "\<not> has_marker \<lparr>buf_id = 0, buf_length = 4096, buf_flags = 0\<rparr>
   \<and> encoder_buffer_callback \<lparr>userdata = True, is_enabled = True\<rparr>
        \<lparr>buf_id = 0, buf_length = 4096, buf_flags = 0\<rparr>
        \<lparr>open_result = 5, write_result = 100, send_status = MMAL_SUCCESS\<rparr>
        (session_start [1, 2])
     = \<lparr>outputFileFD = 0, complete_semaphore = 1, pool_queue = [2, 0],
        cb_trace = [Open, Fchmod 5, MemLock 0, WriteCall 5 4096,
                    Printf ''Write error, aborting'', MemUnlock 0, Release 0, SendBuffer 1,
                    SemaphorePost, Close 5],
        cb_fault = None\<rparr>"
  by (simp add: callback_defs has_marker_def Let_def word_sless_alt)

text \<open>
  Claim C1, amended: an invocation of the delivery callback posts the completion semaphore
  at most once, and it posts exactly when user state is present and the buffer either
  carries an end-of-frame or transmission-failed marker or has its payload write come
  back short.  So in a capture session whose deliveries before the last carry no marker
  and are written in full, and whose last delivery carries a marker, no post is made
  before the last delivery and exactly one post is made in all.
\<close>

theorem completion_posts:
  "complete_semaphore (encoder_buffer_callback port buffer env s0) =
     complete_semaphore s0 +
       (if userdata port \<and> (has_marker buffer \<or> short_write buffer env s0) then 1 else 0)
   \<and> (cb_fault s = None \<and> (\<forall>d \<in> set ds. plain_delivery d) \<and>
       userdata (d_port dl) \<and> has_marker (d_buffer dl) \<longrightarrow>
       complete_semaphore (deliver_all ds s) = complete_semaphore s \<and>
       complete_semaphore (deliver_all (ds @ [dl]) s) = complete_semaphore s + 1)"
proof (intro conjI impI)
  show "complete_semaphore (encoder_buffer_callback port buffer env s0) =
     complete_semaphore s0 +
       (if userdata port \<and> (has_marker buffer \<or> short_write buffer env s0) then 1 else 0)"
    by (rule callback_semaphore)
next
  assume a: "cb_fault s = None \<and> (\<forall>d \<in> set ds. plain_delivery d) \<and>
       userdata (d_port dl) \<and> has_marker (d_buffer dl)"
  then have p: "complete_semaphore (deliver_all ds s) = complete_semaphore s"
    and f: "cb_fault (deliver_all ds s) = None"
    using deliver_plain [of s ds] by simp_all
  show "complete_semaphore (deliver_all ds s) = complete_semaphore s" by (rule p)
  show "complete_semaphore (deliver_all (ds @ [dl]) s) = complete_semaphore s + 1"
    using a p by (simp add: deliver_all_append [OF f] Let_def callback_semaphore)
qed

theorem completion_posts_witness:
  "complete_semaphore
     (deliver_all [mk_delivery True 0 4096 0 4096, mk_delivery True 1 4096 0 4096]
        (session_start [3])) = 0
   \<and> complete_semaphore
     (deliver_all ([mk_delivery True 0 4096 0 4096, mk_delivery True 1 4096 0 4096] @
                   [mk_delivery True 2 100 MMAL_BUFFER_HEADER_FLAG_FRAME_END 100])
        (session_start [3])) = 1"
  using completion_posts [of "\<lparr>userdata = True, is_enabled = True\<rparr>"
      "\<lparr>buf_id = 0, buf_length = 4096, buf_flags = 0\<rparr>"
      "\<lparr>open_result = 5, write_result = 100, send_status = MMAL_SUCCESS\<rparr>"
      "session_start [3]" "session_start [3]"
      "[mk_delivery True 0 4096 0 4096, mk_delivery True 1 4096 0 4096]"
      "mk_delivery True 2 100 MMAL_BUFFER_HEADER_FLAG_FRAME_END 100"]
  by (simp add: plain_delivery_def has_marker_def mk_delivery_def session_start_def
      MMAL_BUFFER_HEADER_FLAG_FRAME_END_def MMAL_BUFFER_HEADER_FLAG_TRANSMISSION_FAILED_def)

subsection \<open>A short write\<close>

text \<open>
  Claim C5, as stated, fails: a short write does not leave completion to the
  end-of-frame marker.  The post is made by the invocation that saw the short write,
  on a buffer without marker; if the marked buffer is still delivered afterwards, the
  session has two posts, not one.
\<close>

theorem short_write_posts_before_marker:
  "\<not> has_marker (d_buffer (mk_delivery True 0 4096 0 100))
   \<and> complete_semaphore (deliver_all [mk_delivery True 0 4096 0 100] (session_start [1, 2])) = 1
   \<and> complete_semaphore
       (deliver_all [mk_delivery True 0 4096 0 100,
                     mk_delivery True 1 0 MMAL_BUFFER_HEADER_FLAG_FRAME_END 0]
          (session_start [1, 2])) = 2"
  by (simp add: callback_defs has_marker_def Let_def word_sless_alt)

text \<open>
  Claim C5, amended: when the payload of a delivered buffer is only partially written
  (the sink is open and \<open>write\<close> returns a count other than the buffer length), the
  callback prints \<open>Write error, aborting\<close> and completes the session in that same
  invocation, whether or not the buffer carries a marker: it posts the semaphore once,
  then closes the sink and resets the descriptor to 0.  The post is the one a fully
  written final buffer gets: at the semaphore a short write is not distinguished from
  success.
\<close>

theorem short_write_completes_at_once:
  assumes "userdata port" "short_write buffer env s"
  shows "complete_semaphore (encoder_buffer_callback port buffer env s) = complete_semaphore s + 1
    \<and> outputFileFD (encoder_buffer_callback port buffer env s) = 0
    \<and> Printf ''Write error, aborting'' \<in>
         set (drop (length (cb_trace s)) (cb_trace (encoder_buffer_callback port buffer env s)))
    \<and> take 2 (rev (cb_trace (encoder_buffer_callback port buffer env s))) =
         [Close (sink_fd env s), SemaphorePost]
    \<and> complete_semaphore (encoder_buffer_callback port buffer env s) =
        complete_semaphore (encoder_buffer_callback port
          (buffer\<lparr>buf_flags := MMAL_BUFFER_HEADER_FLAG_FRAME_END\<rparr>)
          (env\<lparr>write_result := buf_length buffer\<rparr>) s)"
proof -
  obtain evs where cw: "callback_write port buffer env s =
           (1, s\<lparr>outputFileFD := sink_fd env s, cb_trace := cb_trace s @ evs\<rparr>)"
    and pr: "Printf ''Write error, aborting'' \<in> set evs"
    using callback_write_short [OF assms] by blast
  let ?s1 = "s\<lparr>outputFileFD := sink_fd env s, cb_trace := cb_trace s @ evs\<rparr>"
  let ?s2 = "mmal_buffer_header_release buffer ?s1"
  obtain s5 where r: "callback_resubmit port env ?s2 = Inr s5"
    using assms(1) callback_resubmit_cases [of port env ?s2]
    by (cases "callback_resubmit port env ?s2") auto
  obtain evs2 where t5: "cb_trace s5 = cb_trace ?s2 @ evs2"
    using callback_resubmit_trace [OF r] by blast
  have f5: "outputFileFD s5 = sink_fd env s" and c5: "complete_semaphore s5 = complete_semaphore s"
    using callback_resubmit_semaphore [OF r]
    by (simp_all add: mmal_buffer_header_release_def cb_emit_def)
  have e: "encoder_buffer_callback port buffer env s = callback_finish 1 s5"
    by (simp add: encoder_buffer_callback_def cw r)
  have m: "has_marker (buffer\<lparr>buf_flags := MMAL_BUFFER_HEADER_FLAG_FRAME_END\<rparr>)"
    by (simp add: has_marker_def MMAL_BUFFER_HEADER_FLAG_FRAME_END_def
        MMAL_BUFFER_HEADER_FLAG_TRANSMISSION_FAILED_def)
  show ?thesis
    using pr m assms(1)
    by (simp add: e t5 f5 c5 callback_finish_def vcos_semaphore_post_def cb_emit_def Let_def
        mmal_buffer_header_release_def callback_semaphore)
qed

theorem short_write_completes_at_once_witness:
  "short_write \<lparr>buf_id = 0, buf_length = 4096, buf_flags = 0\<rparr>
      \<lparr>open_result = 5, write_result = 100, send_status = MMAL_SUCCESS\<rparr> (session_start [1, 2])
   \<and> complete_semaphore (encoder_buffer_callback \<lparr>userdata = True, is_enabled = True\<rparr>
        \<lparr>buf_id = 0, buf_length = 4096, buf_flags = 0\<rparr>
        \<lparr>open_result = 5, write_result = 100, send_status = MMAL_SUCCESS\<rparr>
        (session_start [1, 2])) = 1
   \<and> outputFileFD (encoder_buffer_callback \<lparr>userdata = True, is_enabled = True\<rparr>
        \<lparr>buf_id = 0, buf_length = 4096, buf_flags = 0\<rparr>
        \<lparr>open_result = 5, write_result = 100, send_status = MMAL_SUCCESS\<rparr>
        (session_start [1, 2])) = 0"
proof -
  have sw: "short_write \<lparr>buf_id = 0, buf_length = 4096, buf_flags = 0\<rparr>
      \<lparr>open_result = 5, write_result = 100, send_status = MMAL_SUCCESS\<rparr> (session_start [1, 2])"
    by (simp add: short_write_def sink_fd_def session_start_def word_sless_alt)
  have ud: "userdata \<lparr>userdata = True, is_enabled = True\<rparr>" by simp
  show ?thesis
    using sw short_write_completes_at_once [OF ud sw] by (simp add: session_start_def)
qed

subsection \<open>Recycling the delivered buffer\<close>

lemma release_count:
  "count_list (cb_trace (encoder_buffer_callback port buffer env s)) (Release i) =
     count_list (cb_trace s) (Release i) + (if i = buf_id buffer then 1 else 0)"
proof -
  obtain c s1 where cw: "callback_write port buffer env s = (c, s1)"
    by (cases "callback_write port buffer env s")
  have s1: "count_list (cb_trace s1) (Release i) = count_list (cb_trace s) (Release i)"
    using callback_write_releases [of port buffer env s i] cw by simp
  let ?s2 = "mmal_buffer_header_release buffer s1"
  have s2: "count_list (cb_trace ?s2) (Release i) =
      count_list (cb_trace s) (Release i) + (if i = buf_id buffer then 1 else 0)"
    using s1 by (simp add: mmal_buffer_header_release_def cb_emit_def)
  show ?thesis
  proof (cases "callback_resubmit port env ?s2")
    case (Inl f)
    with s2 show ?thesis
      by (simp add: encoder_buffer_callback_def cw)
  next
    case (Inr s5)
    with s2 show ?thesis
      using callback_resubmit_releases [OF Inr, of i]
      by (simp add: encoder_buffer_callback_def cw callback_finish_releases)
  qed
qed

text \<open>
  Claim C8, as stated, fails in its second half: the delivered buffer can be left out of
  circulation.  Here the port is enabled, the free queue is empty and
  \<open>mmal_port_send_buffer\<close> fails: the callback releases header 3, takes it from the
  queue again, fails to send it, and only logs that; the header ends in neither the
  pool nor the port.
\<close>

theorem failed_resubmit_drops_buffer:
  "encoder_buffer_callback \<lparr>userdata = True, is_enabled = True\<rparr>
      \<lparr>buf_id = 3, buf_length = 0, buf_flags = 0\<rparr>
      \<lparr>open_result = 5, write_result = 0, send_status = 1\<rparr>
      \<lparr>outputFileFD = 5, complete_semaphore = 0, pool_queue = [], cb_trace = [],
       cb_fault = None\<rparr>
   = \<lparr>outputFileFD = 5, complete_semaphore = 0, pool_queue = [],
      cb_trace = [Release 3, SendBuffer 3,
                  LogError ''Unable to return a buffer to the encoder port''],
      cb_fault = None\<rparr>
   \<and> send_status \<lparr>open_result = 5, write_result = 0, send_status = 1\<rparr> \<noteq> MMAL_SUCCESS"
  by (simp add: callback_defs Let_def word_sless_alt)

text \<open>
  Claim C8, amended: on every path of the callback, whatever the write returned and
  whatever the flags are, and also when it is invoked with no user state (the release
  comes before the access that faults there), the delivered buffer is released to the
  pool exactly once: the number of releases goes up by one for the delivered header
  and by none for any other.  Afterwards the header is in the free queue of the pool,
  or else the port is enabled, user state is present and this same invocation has
  taken the header from the queue again and passed it to \<open>mmal_port_send_buffer\<close>;
  when that call fails, the callback logs the failure.
\<close>

theorem buffer_released_once:
  "count_list (cb_trace (encoder_buffer_callback port buffer env s)) (Release i) =
     count_list (cb_trace s) (Release i) + (if i = buf_id buffer then 1 else 0)
   \<and> (buf_id buffer \<in> set (pool_queue (encoder_buffer_callback port buffer env s)) \<or>
      is_enabled port \<and> userdata port \<and>
      SendBuffer (buf_id buffer) \<in>
        set (drop (length (cb_trace s)) (cb_trace (encoder_buffer_callback port buffer env s))) \<and>
      (send_status env \<noteq> MMAL_SUCCESS \<longrightarrow>
         LogError ''Unable to return a buffer to the encoder port'' \<in>
           set (drop (length (cb_trace s))
                  (cb_trace (encoder_buffer_callback port buffer env s)))))"
  using release_count [of port buffer env s i] buffer_fate [of buffer port env s] by simp

theorem buffer_released_once_witness:
  "count_list (cb_trace (encoder_buffer_callback \<lparr>userdata = False, is_enabled = True\<rparr>
        \<lparr>buf_id = 7, buf_length = 4096, buf_flags = 0\<rparr>
        \<lparr>open_result = 5, write_result = 4096, send_status = MMAL_SUCCESS\<rparr>
        (session_start []))) (Release 7) = 1
   \<and> cb_fault (encoder_buffer_callback \<lparr>userdata = False, is_enabled = True\<rparr>
        \<lparr>buf_id = 7, buf_length = 4096, buf_flags = 0\<rparr>
        \<lparr>open_result = 5, write_result = 4096, send_status = MMAL_SUCCESS\<rparr>
        (session_start [])) = Some NullDereference
   \<and> pool_queue (encoder_buffer_callback \<lparr>userdata = False, is_enabled = True\<rparr>
        \<lparr>buf_id = 7, buf_length = 4096, buf_flags = 0\<rparr>
        \<lparr>open_result = 5, write_result = 4096, send_status = MMAL_SUCCESS\<rparr>
        (session_start [])) = [7]
   \<and> count_list (cb_trace (encoder_buffer_callback \<lparr>userdata = True, is_enabled = True\<rparr>
        \<lparr>buf_id = 3, buf_length = 0, buf_flags = 0\<rparr>
        \<lparr>open_result = 5, write_result = 0, send_status = 1\<rparr>
        (session_start []))) (Release 3) = 1
   \<and> LogError ''Unable to return a buffer to the encoder port'' \<in>
       set (cb_trace (encoder_buffer_callback \<lparr>userdata = True, is_enabled = True\<rparr>
        \<lparr>buf_id = 3, buf_length = 0, buf_flags = 0\<rparr>
        \<lparr>open_result = 5, write_result = 0, send_status = 1\<rparr>
        (session_start [])))"
  using buffer_released_once [of "\<lparr>userdata = False, is_enabled = True\<rparr>"
        "\<lparr>buf_id = 7, buf_length = 4096, buf_flags = 0\<rparr>"
        "\<lparr>open_result = 5, write_result = 4096, send_status = MMAL_SUCCESS\<rparr>"
        "session_start []" 7]
    buffer_released_once [of "\<lparr>userdata = True, is_enabled = True\<rparr>"
        "\<lparr>buf_id = 3, buf_length = 0, buf_flags = 0\<rparr>"
        "\<lparr>open_result = 5, write_result = 0, send_status = 1\<rparr>"
        "session_start []" 3]
  by (simp add: callback_defs Let_def)

section \<open>Properties of the upload receiver\<close>

lemma opened_files_append: "opened_files (xs @ ys) = opened_files xs @ opened_files ys"
  by (induction xs rule: opened_files.induct) simp_all

lemma opened_files_copy_loop: "opened_files (copy_loop fd rs) = []"
  by (induction fd rs rule: copy_loop.induct) simp_all

lemma decimal_0: "decimal 0 = ''0''"
  by (subst decimal.simps) (simp add: digit_char_def)

lemma accept_one_file: "opened_files (accept_one c) = [''/var/www/html/grab0.jpeg'']"
  by (simp add: accept_one_def processClient_def serv_addr_def INADDR_ANY_def decimal_0
      opened_files_append opened_files_copy_loop)

text \<open>
  Claim C9 does not hold of the code: the file name is built from the address handed to
  \<open>processClient\<close>, and \<open>acceptThread\<close> hands it the address it bound to
  (\<open>INADDR_ANY\<close>, which is 0), not the peer's.  Two peers with different addresses are
  both written to \<open>grab0.jpeg\<close>.
\<close>

theorem two_peers_one_file:
  "sin_addr (cli_addr (peer_at 0x0501A8C0 4 [Data [1, 2], PeerClosed])) \<noteq>
   sin_addr (cli_addr (peer_at 0x0601A8C0 5 [Data [3], PeerClosed]))
   \<and> acceptThread True True
       [Accepted (peer_at 0x0501A8C0 4 [Data [1, 2], PeerClosed]),
        Accepted (peer_at 0x0601A8C0 5 [Data [3], PeerClosed])]
     = [PrintWaiting, PrintOpened,
        PrintClient 0, OpenFile ''/var/www/html/grab0.jpeg'', FchmodOut,
        ReadCall 4, WriteOut [1, 2], ReadCall 4,
        PrintWaiting, PrintOpened,
        PrintClient 0, OpenFile ''/var/www/html/grab0.jpeg'', FchmodOut,
        ReadCall 5, WriteOut [3], ReadCall 5]"
  by (simp add: acceptThread_def peer_at_def accept_one_def processClient_def serv_addr_def
      INADDR_ANY_def decimal_0)

end
